theory Spec2Isabelle
  imports Main "HOL-Library.Sublist"
begin

section \<open>CallState: the per-call state machine\<close>

text \<open>
  Modelled from the spec: the CallState implementation (\<open>respoke.CallState\<close>) is not among
  the sources; only its unit test \<open>spec/unit/client/call-state.spec.js\<close> is. The states,
  events, transition table, guards and the entry/exit rule below follow section 4.1 of the
  specification. Where the table leaves a choice open the unit test decides it: a callee
  leaves \<open>approvingContent\<close> for \<open>connecting\<close> (the caller for \<open>offering\<close>), and
  \<open>reject\<close> in \<open>preparing\<close> while media is flowing keeps the existing call by going back
  to \<open>connected\<close>.
\<close>

datatype state_name =
  Idle | Preparing | ApprovingDeviceAccess | ApprovingContent | Offering
  | Connecting | Connected | Modifying | Terminated

text \<open>\<open>dispatch\<close> takes the event name as a string; \<open>UnknownEvent\<close> stands for every
  string that is not one of the eleven event names.\<close>

datatype event =
  Initiate | Answer | Approve | ReceiveLocalMedia | SentOffer | ReceiveAnswer
  | ReceiveRemoteMedia | Accept | Modify | Reject | Hangup | UnknownEvent string

text \<open>The arguments of a dispatch that guards read: whether the client has a listener for
  incoming calls (\<open>initiate\<close>), and the \<open>receive\<close> flag of \<open>modify\<close>.\<close>

record dispatch_args =
  hasListeners :: bool
  receive :: bool

text \<open>The fields of section 3, and \<open>modifyInProgress\<close>, the history bit behind
  \<open>isModifying()\<close>: set on entry to \<open>modifying\<close> or on a re-prepare caused by
  \<open>modify\<close>, cleared on the next entry to \<open>connected\<close> or \<open>terminated\<close>.\<close>

record CallState =
  name :: state_name
  isMediaFlowing :: bool
  hasLocalMedia :: bool
  hasLocalMediaApproval :: bool
  caller :: bool
  modifyInProgress :: bool

datatype emitted = Exit state_name | Entry state_name

definition initialState :: "bool \<Rightarrow> CallState" where
  "initialState c =
     \<lparr>name = Idle, isMediaFlowing = False, hasLocalMedia = False,
      hasLocalMediaApproval = False, caller = c, modifyInProgress = False\<rparr>"

definition isModifying :: "CallState \<Rightarrow> bool" where
  "isModifying s = modifyInProgress s"

definition enter :: "state_name \<Rightarrow> CallState \<Rightarrow> CallState" where
  "enter n s =
     s\<lparr>name := n,
       modifyInProgress := (if n = Connected \<or> n = Terminated then False else modifyInProgress s)\<rparr>"

definition afterMedia :: "CallState \<Rightarrow> state_name" where
  "afterMedia s = (if caller s then Offering else Connecting)"

text \<open>Modelled from the spec: the transition function of \<open>respoke.CallState\<close>, whose source
  is missing. One branch per non-empty cell of the transition table of section 4.1, row by
  row, with the guards and effects of its footnotes; the default branch of each row (and the
  whole row of \<open>terminated\<close>) leaves the machine as it is.\<close>

definition transition :: "state_name \<Rightarrow> event \<Rightarrow> dispatch_args \<Rightarrow> CallState \<Rightarrow> CallState" where
  "transition n e a s =
     (case n of
        Idle \<Rightarrow>
          (case e of
             Initiate \<Rightarrow> if hasListeners a then enter Preparing s else enter Terminated s
           | Hangup \<Rightarrow> enter Terminated s
           | _ \<Rightarrow> s)
      | Preparing \<Rightarrow>
          (case e of
             Answer \<Rightarrow> enter ApprovingDeviceAccess s
           | Accept \<Rightarrow> s
           | Reject \<Rightarrow> if isMediaFlowing s then enter Connected s else enter Terminated s
           | Hangup \<Rightarrow> enter Terminated s
           | _ \<Rightarrow> s)
      | ApprovingDeviceAccess \<Rightarrow>
          (case e of
             Approve \<Rightarrow> enter ApprovingContent s
           | Reject \<Rightarrow> enter Terminated s
           | Hangup \<Rightarrow> enter Terminated s
           | _ \<Rightarrow> s)
      | ApprovingContent \<Rightarrow>
          (case e of
             Approve \<Rightarrow>
               (let s1 = s\<lparr>hasLocalMediaApproval := True\<rparr>
                in if hasLocalMedia s then enter (afterMedia s) s1 else s1)
           | ReceiveLocalMedia \<Rightarrow>
               (let s1 = s\<lparr>hasLocalMedia := True\<rparr>
                in if hasLocalMediaApproval s then enter (afterMedia s) s1 else s1)
           | Reject \<Rightarrow> enter Terminated s
           | Hangup \<Rightarrow> enter Terminated s
           | _ \<Rightarrow> s)
      | Offering \<Rightarrow>
          (case e of
             ReceiveLocalMedia \<Rightarrow> s\<lparr>hasLocalMedia := True\<rparr>
           | SentOffer \<Rightarrow> s
           | ReceiveAnswer \<Rightarrow> enter Connecting s
           | Reject \<Rightarrow> enter Terminated s
           | Hangup \<Rightarrow> enter Terminated s
           | _ \<Rightarrow> s)
      | Connecting \<Rightarrow>
          (case e of
             ReceiveRemoteMedia \<Rightarrow> enter Connected s
           | Reject \<Rightarrow> enter Terminated s
           | Hangup \<Rightarrow> enter Terminated s
           | _ \<Rightarrow> s)
      | Connected \<Rightarrow>
          (case e of
             Modify \<Rightarrow>
               if receive a
               then enter Preparing
                      (s\<lparr>hasLocalMedia := False, hasLocalMediaApproval := False,
                         caller := False, modifyInProgress := True\<rparr>)
               else enter Modifying (s\<lparr>modifyInProgress := True\<rparr>)
           | Reject \<Rightarrow> s
           | Hangup \<Rightarrow> enter Terminated s
           | _ \<Rightarrow> s)
      | Modifying \<Rightarrow>
          (case e of
             Accept \<Rightarrow>
               enter Preparing
                 (s\<lparr>hasLocalMedia := False, hasLocalMediaApproval := False, caller := True\<rparr>)
           | Reject \<Rightarrow> enter Connected s
           | Hangup \<Rightarrow> enter Terminated s
           | _ \<Rightarrow> s)
      | Terminated \<Rightarrow> s)"

text \<open>Modelled from the spec: \<open>dispatch\<close> of \<open>respoke.CallState\<close>, whose source is missing.
  A change of state emits the exit event of the old state, then the entry event of the new
  one; staying in a state emits neither. There is no failing outcome: the machine never
  throws.\<close>

definition dispatch :: "CallState \<Rightarrow> event \<Rightarrow> dispatch_args \<Rightarrow> CallState \<times> emitted list" where
  "dispatch s e a =
     (let s' = transition (name s) e a s
      in (s', if name s' = name s then [] else [Exit (name s), Entry (name s')]))"

fun dispatch_all :: "CallState \<Rightarrow> (event \<times> dispatch_args) list \<Rightarrow> CallState \<times> emitted list" where
  "dispatch_all s [] = (s, [])"
| "dispatch_all s ((e, a) # es) =
     (let (s1, out1) = dispatch s e a; (s2, out2) = dispatch_all s1 es in (s2, out1 @ out2))"

text \<open>The events listed in each row of the transition table (the cells that are not a
  dash), written down from the table independently of \<open>transition\<close>.\<close>

fun table_row :: "state_name \<Rightarrow> event list" where
  "table_row Idle = [Initiate, Hangup]"
| "table_row Preparing = [Answer, Accept, Reject, Hangup]"
| "table_row ApprovingDeviceAccess = [Approve, Reject, Hangup]"
| "table_row ApprovingContent = [Approve, ReceiveLocalMedia, Reject, Hangup]"
| "table_row Offering = [ReceiveLocalMedia, SentOffer, ReceiveAnswer, Reject, Hangup]"
| "table_row Connecting = [ReceiveRemoteMedia, Reject, Hangup]"
| "table_row Connected = [Modify, Reject, Hangup]"
| "table_row Modifying = [Accept, Reject, Hangup]"
| "table_row Terminated = []"

text \<open>The states a machine can be in: created idle, driven by \<open>dispatch\<close>, with the two
  public media flags set from outside by the owning call (as the unit test does).\<close>

inductive reachable :: "CallState \<Rightarrow> bool" where
  created: "reachable (initialState c)"
| dispatched: "reachable s \<Longrightarrow> reachable (fst (dispatch s e a))"
| mediaFlowing: "reachable s \<Longrightarrow> reachable (s\<lparr>isMediaFlowing := b\<rparr>)"
| localMedia: "reachable s \<Longrightarrow> reachable (s\<lparr>hasLocalMedia := b\<rparr>)"

text \<open>The unit test's way into \<open>modifying\<close>: initiate, media starts flowing, the
  pending negotiation is rejected (back to \<open>connected\<close>), then this side starts a modify.\<close>

definition noArgs :: dispatch_args where
  "noArgs = \<lparr>hasListeners = True, receive = False\<rparr>"

definition modifyInitiator :: CallState where
  "modifyInitiator =
     fst (dispatch
           (fst (dispatch ((fst (dispatch (initialState True) Initiate noArgs))\<lparr>isMediaFlowing := True\<rparr>)
                   Reject noArgs))
           Modify noArgs)"

section \<open>PendingRequests: the container of requests awaiting a response\<close>

text \<open>
  \<open>contents\<close> is a JavaScript array that may have holes: \<open>None\<close> is a hole (an index never
  assigned, or deleted). \<open>counter\<close> is the next index to assign; \<open>reset\<close> empties the array
  but leaves the counter where it is.
\<close>

record 'a PendingRequests =
  contents :: "'a option list"
  counter :: nat

definition newPendingRequests :: "'a PendingRequests" where
  "newPendingRequests = \<lparr>contents = [], counter = 0\<rparr>"

text \<open>\<open>contents[i] = obj\<close>: an assignment past the end extends the array, leaving holes
  between the old end and \<open>i\<close>.\<close>

definition array_assign :: "'a option list \<Rightarrow> nat \<Rightarrow> 'a \<Rightarrow> 'a option list" where
  "array_assign xs i obj =
     (if i < length xs then xs[i := Some obj]
      else xs @ replicate (i - length xs) None @ [Some obj])"

text \<open>\<open>delete contents[key]\<close>: leaves a hole and never changes the array's length; deleting
  an index that is not there does nothing.\<close>

definition array_delete :: "'a option list \<Rightarrow> nat \<Rightarrow> 'a option list" where
  "array_delete xs key = (if key < length xs then xs[key := None] else xs)"

text \<open>\<open>add\<close> stores at the counter's value before the increment and returns its value
  after the increment.\<close>

definition add :: "'a \<Rightarrow> 'a PendingRequests \<Rightarrow> nat \<times> 'a PendingRequests" where
  "add obj p =
     (let p1 = p\<lparr>contents := array_assign (contents p) (counter p) obj\<rparr>;
          p2 = p1\<lparr>counter := counter p1 + 1\<rparr>
      in (counter p2, p2))"

definition remove_key :: "nat \<Rightarrow> 'a PendingRequests \<Rightarrow> 'a PendingRequests" where
  "remove_key key p = p\<lparr>contents := array_delete (contents p) key\<rparr>"

text \<open>\<open>reset(fn)\<close>: \<open>forEach\<close> visits the assigned indices in ascending order and skips
  holes. The result is the list of objects \<open>fn\<close> is invoked on, and the emptied container.\<close>

definition reset :: "'a PendingRequests \<Rightarrow> 'a list \<times> 'a PendingRequests" where
  "reset p = (List.map_filter (\<lambda>x. x) (contents p), p\<lparr>contents := []\<rparr>)"

text \<open>The containers the three operations can produce from a new one.\<close>

inductive pending_reachable :: "'a PendingRequests \<Rightarrow> bool" where
  fresh: "pending_reachable newPendingRequests"
| added: "pending_reachable p \<Longrightarrow> pending_reachable (snd (add obj p))"
| removed: "pending_reachable p \<Longrightarrow> pending_reachable (remove_key key p)"
| emptied: "pending_reachable p \<Longrightarrow> pending_reachable (snd (reset p))"

section \<open>Request bodies: UTF-16 strings, encodeURI and the byte count\<close>

text \<open>A JavaScript string is a sequence of UTF-16 code units.\<close>

type_synonym utf16 = "nat list"

text \<open>The exceptions the modelled code can throw; \<open>Error\<close> carries the message of a
  \<open>new Error(...)\<close>.\<close>

datatype js_error = TypeError | URIError | Error string

text \<open>The characters \<open>encodeURI\<close> leaves alone: letters, digits, the marks
  \<open>- _ . ! ~ * ' ( )\<close>, the reserved \<open>; / ? : @ & = + $ ,\<close> and \<open>#\<close>.\<close>

definition uriUnescaped :: "nat \<Rightarrow> bool" where
  "uriUnescaped c \<longleftrightarrow>
     c = 33 \<or> c = 35 \<or> c = 36 \<or> (38 \<le> c \<and> c \<le> 59) \<or> c = 61 \<or> (63 \<le> c \<and> c \<le> 90)
     \<or> c = 95 \<or> (97 \<le> c \<and> c \<le> 122) \<or> c = 126"

text \<open>The UTF-8 octets of a code point.\<close>

definition utf8 :: "nat \<Rightarrow> nat list" where
  "utf8 v =
     (if v < 0x80 then [v]
      else if v < 0x800 then [0xC0 + v div 0x40, 0x80 + v mod 0x40]
      else if v < 0x10000 then
        [0xE0 + v div 0x1000, 0x80 + (v div 0x40) mod 0x40, 0x80 + v mod 0x40]
      else
        [0xF0 + v div 0x40000, 0x80 + (v div 0x1000) mod 0x40,
         0x80 + (v div 0x40) mod 0x40, 0x80 + v mod 0x40])"

definition hexDigit :: "nat \<Rightarrow> nat" where
  "hexDigit d = (if d < 10 then 48 + d else 55 + d)"

text \<open>An octet as \<open>%XY\<close>, and a list of octets escaped one after the other.\<close>

definition percentEncode :: "nat \<Rightarrow> utf16" where
  "percentEncode b = [37, hexDigit ((b div 16) mod 16), hexDigit (b mod 16)]"

definition escapeOctets :: "nat list \<Rightarrow> utf16" where
  "escapeOctets bs = concat (map percentEncode bs)"

definition isLowSurrogate :: "nat \<Rightarrow> bool" where
  "isLowSurrogate c \<longleftrightarrow> 0xDC00 \<le> c \<and> c \<le> 0xDFFF"

definition isHighSurrogate :: "nat \<Rightarrow> bool" where
  "isHighSurrogate c \<longleftrightarrow> 0xD800 \<le> c \<and> c \<le> 0xDBFF"

definition pairValue :: "nat \<Rightarrow> nat \<Rightarrow> nat" where
  "pairValue hi lo = (hi - 0xD800) * 0x400 + (lo - 0xDC00) + 0x10000"

text \<open>\<open>encodeURI\<close>, as the language defines it: unescaped characters are copied, a
  surrogate pair is combined into its code point, every other code unit is escaped octet
  by octet, and a surrogate without its partner throws \<open>URIError\<close> (\<open>None\<close>).\<close>

fun encodeURI :: "utf16 \<Rightarrow> utf16 option" where
  "encodeURI [] = Some []"
| "encodeURI (c # cs) =
     (if uriUnescaped c then map_option (\<lambda>r. c # r) (encodeURI cs)
      else if isLowSurrogate c then None
      else if \<not> isHighSurrogate c then
        map_option (\<lambda>r. escapeOctets (utf8 c) @ r) (encodeURI cs)
      else
        (case cs of
           [] \<Rightarrow> None
         | d # ds \<Rightarrow>
             if isLowSurrogate d
             then map_option (\<lambda>r. escapeOctets (utf8 (pairValue c d)) @ r) (encodeURI ds)
             else None))"

text \<open>The regular expression's \<open>.\<close> matches any code unit but a line terminator.\<close>

definition dot :: "nat \<Rightarrow> bool" where
  "dot c \<longleftrightarrow> c \<noteq> 10 \<and> c \<noteq> 13 \<and> c \<noteq> 0x2028 \<and> c \<noteq> 0x2029"

text \<open>\<open>str.split(/%..|./)\<close>: scanning from the left, a match of \<open>%..\<close> (tried first) or of
  \<open>.\<close> closes the current piece and is itself dropped; a code unit that matches neither
  joins the current piece. \<open>piece\<close> is the piece being collected.\<close>

fun split :: "utf16 \<Rightarrow> utf16 \<Rightarrow> utf16 list" where
  "split piece [] = [piece]"
| "split piece (c # cs) =
     (if c = 37 then
        (case cs of
           a # b # rest \<Rightarrow>
             if dot a \<and> dot b then piece # split [] rest else piece # split [] cs
         | _ \<Rightarrow> piece # split [] cs)
      else if dot c then piece # split [] cs
      else split (piece @ [c]) cs)"

definition bodySizeLimit :: nat where
  "bodySizeLimit = 20000"

text \<open>\<open>bodyLength\<close> of \<open>wsCall\<close>: 0 without parameters, otherwise
  \<open>encodeURI(JSON.stringify(params.parameters)).split(/%..|./).length - 1\<close>. The argument is
  the text \<open>JSON.stringify\<close> produced.\<close>

definition bodyLength :: "utf16 option \<Rightarrow> nat option" where
  "bodyLength parameters =
     (case parameters of
        None \<Rightarrow> Some 0
      | Some str \<Rightarrow> map_option (\<lambda>u. length (split [] u) - 1) (encodeURI str))"

text \<open>What the size limit is meant to measure, defined without \<open>encodeURI\<close>: decode the
  UTF-16 string to code points (\<open>None\<close> when a surrogate has no partner) and count the octets
  of their UTF-8 encoding.\<close>

fun decodeUTF16 :: "utf16 \<Rightarrow> nat list option" where
  "decodeUTF16 [] = Some []"
| "decodeUTF16 [c] = (if isLowSurrogate c \<or> isHighSurrogate c then None else Some [c])"
| "decodeUTF16 (c # d # ds) =
     (if isLowSurrogate c then None
      else if isHighSurrogate c then
        (if isLowSurrogate d then map_option (\<lambda>r. pairValue c d # r) (decodeUTF16 ds) else None)
      else map_option (\<lambda>r. c # r) (decodeUTF16 (d # ds)))"

definition utf8Length :: "utf16 \<Rightarrow> nat option" where
  "utf8Length str = map_option (\<lambda>cps. length (concat (map utf8 cps))) (decodeUTF16 str)"

section \<open>The websocket RPC: wsCall and its response handler\<close>

text \<open>A deferred of the promise library: it settles once, and later calls of \<open>resolve\<close> or
  \<open>reject\<close> are ignored.\<close>

datatype 'v promise = Pending | Resolved 'v | Rejected string

definition resolve :: "'v \<Rightarrow> 'v promise \<Rightarrow> 'v promise" where
  "resolve v p = (case p of Pending \<Rightarrow> Resolved v | _ \<Rightarrow> p)"

definition reject :: "string \<Rightarrow> 'v promise \<Rightarrow> 'v promise" where
  "reject err p = (case p of Pending \<Rightarrow> Rejected err | _ \<Rightarrow> p)"

text \<open>A response body after \<open>JSON.parse\<close>. Of an object only the properties the handler
  reads are kept: \<open>error\<close>, and \<open>details.message\<close> and \<open>details.reason\<close> when they are
  strings. A parsed value that is neither \<open>null\<close> nor an object behaves as an object without
  these properties.\<close>

record body_object =
  error :: "string option"
  details_message :: "string option"
  details_reason :: "string option"

datatype parsed_body = Null | Object body_object

text \<open>The body as it arrives: \<open>Unparsable\<close> is a value that \<open>JSON.parse\<close> throws on and that
  is not an object (its text is what string concatenation prints; a missing body prints
  \<open>undefined\<close>); \<open>Parsed\<close> is JSON text with its value, or an already structured
  object.\<close>

datatype wire_body = Unparsable string | Parsed parsed_body

record response =
  statusCode :: int
  body :: wire_body
  requestId :: "string option"

text \<open>The request record of a \<open>wsCall\<close>. \<open>req_method\<close> is its \<open>method\<close> and \<open>req_id\<close> its
  \<open>id\<close>, the key \<open>PendingRequests.add\<close> returned; \<open>durationMillis\<close>, a clock reading that
  only the log shows, is left out.\<close>

record request =
  req_method :: string
  path :: string
  parameters :: "utf16 option"
  tries :: nat
  req_id :: nat

text \<open>A frame handed to the transport by \<open>socket.emit\<close> (the two constant headers are left
  out).\<close>

record frame =
  event :: string
  url :: string
  data :: "utf16 option"

text \<open>The part of the signaling channel that \<open>wsCall\<close> touches. \<open>deferreds\<close> is the store of
  the deferreds created so far; a deferred is referred to by its index there, and
  \<open>pendingRequests\<close> holds such references.\<close>

record channel =
  isConnected :: bool
  pendingRequests :: "nat PendingRequests"
  deferreds :: "parsed_body promise list"
  emitted :: "frame list"

definition Q_defer :: "channel \<Rightarrow> nat \<times> channel" where
  "Q_defer ch = (length (deferreds ch), ch\<lparr>deferreds := deferreds ch @ [Pending]\<rparr>)"

definition resolve_at :: "nat \<Rightarrow> parsed_body \<Rightarrow> channel \<Rightarrow> channel" where
  "resolve_at d v ch =
     (if d < length (deferreds ch)
      then ch\<lparr>deferreds := (deferreds ch)[d := resolve v (deferreds ch ! d)]\<rparr> else ch)"

definition reject_at :: "nat \<Rightarrow> string \<Rightarrow> channel \<Rightarrow> channel" where
  "reject_at d err ch =
     (if d < length (deferreds ch)
      then ch\<lparr>deferreds := (deferreds ch)[d := reject err (deferreds ch ! d)]\<rparr> else ch)"

definition isPending :: "channel \<Rightarrow> nat \<Rightarrow> bool" where
  "isPending ch d \<longleftrightarrow> d < length (deferreds ch) \<and> deferreds ch ! d = Pending"

text \<open>JavaScript truthiness of an optional string: present and not empty.\<close>

definition truthy :: "string option \<Rightarrow> bool" where
  "truthy v = (case v of None \<Rightarrow> False | Some s \<Rightarrow> s \<noteq> [])"

text \<open>\<open>s.indexOf(sub) > -1\<close>.\<close>

fun contains :: "string \<Rightarrow> string \<Rightarrow> bool" where
  "contains [] sub = (sub = [])"
| "contains (c # cs) sub = (prefix sub (c # cs) \<or> contains cs sub)"

definition errors :: "int option \<Rightarrow> string option" where
  "errors status =
     (if status = Some 400 then Some ''Can't perform this action: missing or invalid parameters.''
      else if status = Some 401 then Some ''Can't perform this action: not authenticated.''
      else if status = Some 403 then Some ''Can't perform this action: not authorized.''
      else if status = Some 404 then Some ''Item not found.''
      else if status = Some 409 then Some ''Can't perform this action: item in the wrong state.''
      else if status = Some 429 then Some ''API rate limit was exceeded.''
      else if status = Some 500 then Some ''Can't perform this action: server problem.''
      else None)"

definition billingSuspensionErrorMessage :: string where
  "billingSuspensionErrorMessage =
     ''Can't perform this action: Not Authorized. Your account is suspended due to a '' @
     ''billing issue. Please visit the Respoke Developer Portal (https://www.respoke.io) or contact customer support '' @
     ''(support@respoke.io) to address this issue.''"

definition suspensionErrorMessage :: string where
  "suspensionErrorMessage =
     ''Canot perform this action: Not Authorized. Your account is suspended. Please visit '' @
     ''the Respoke Developer Portal (https://www.respoke.io) or contact customer support (support@respoke.io) to '' @
     ''address this issue.''"

definition isSuspensionUnauthorizedResponse :: "response \<Rightarrow> parsed_body \<Rightarrow> bool" where
  "isSuspensionUnauthorizedResponse response b =
     (statusCode response = 401 \<and>
      (case b of
         Null \<Rightarrow> False
       | Object obj \<Rightarrow>
           (case details_message obj of None \<Rightarrow> False | Some m \<Rightarrow> contains m ''suspended'')))"

definition isBillingSuspensionUnauthorizedResponse :: "response \<Rightarrow> parsed_body \<Rightarrow> bool" where
  "isBillingSuspensionUnauthorizedResponse response b =
     (isSuspensionUnauthorizedResponse response b \<and>
      (case b of
         Null \<Rightarrow> False
       | Object obj \<Rightarrow>
           (case details_reason obj of None \<Rightarrow> False | Some r \<Rightarrow> contains r ''billing suspension'')))"

definition buildResponseError :: "response \<Rightarrow> string \<Rightarrow> string" where
  "buildResponseError res message =
     (if truthy (requestId res)
      then message @ '' [Request-Id: '' @ the (requestId res) @ '']''
      else message)"

definition bodyError :: "parsed_body \<Rightarrow> string option" where
  "bodyError b = (case b of Null \<Rightarrow> None | Object obj \<Rightarrow> error obj)"

text \<open>\<open>failWebsocketRequest\<close> rejects only when the body carries a truthy \<open>error\<close>; otherwise
  it resolves the deferred with the body.\<close>

definition failWebsocketRequest ::
    "request \<Rightarrow> response \<Rightarrow> parsed_body \<Rightarrow> string \<Rightarrow> nat \<Rightarrow> channel \<Rightarrow> channel" where
  "failWebsocketRequest rq response b err deferred ch =
     (if truthy (bodyError b)
      then reject_at deferred
             (buildResponseError response (err @ '' ('' @ req_method rq @ '' '' @ path rq @ '')'')) ch
      else resolve_at deferred b ch)"

definition sendWebsocketRequest :: "request \<Rightarrow> channel \<Rightarrow> request \<times> channel" where
  "sendWebsocketRequest rq ch =
     (let rq1 = rq\<lparr>tries := tries rq + 1\<rparr>
      in (rq1,
          ch\<lparr>emitted := emitted ch @ [\<lparr>event = req_method rq1, url = path rq1, data = parameters rq1\<rparr>]\<rparr>))"

text \<open>What a run of the response handler ends in: it returned, it returned after scheduling
  the resend with \<open>setTimeout\<close> (the delay in milliseconds), or it threw.\<close>

datatype outcome = Returned | RetryIn nat | Threw js_error

definition acceptedStatuses :: "int list" where
  "acceptedStatuses = [200, 204, 205, 302, 401, 403, 404, 418]"

definition statusAccepted :: "int option \<Rightarrow> bool" where
  "statusAccepted status = (case status of None \<Rightarrow> False | Some n \<Rightarrow> n \<in> set acceptedStatuses)"

text \<open>\<open>handleResponse\<close>, the callback of a frame. It closes over the request and the deferred
  of its \<open>wsCall\<close>. The rate-limit test reads \<open>response.statusCode\<close>; the table of accepted
  statuses is searched for \<open>this.status\<close>, the \<open>status\<close> property of the object the transport
  invokes the callback on, here \<open>thisStatus\<close> (\<open>None\<close> when there is no such property).\<close>

definition handleResponse ::
    "request \<Rightarrow> nat \<Rightarrow> response \<Rightarrow> int option \<Rightarrow> channel \<Rightarrow> outcome \<times> channel" where
  "handleResponse rq deferred response thisStatus ch =
     (case body response of
        Unparsable shown \<Rightarrow>
          (Returned, reject_at deferred (''Server response could not be parsed!'' @ shown) ch)
      | Parsed b \<Rightarrow>
          if statusCode response = 429 then
            (if tries rq < 3 \<and> isPending ch deferred then (RetryIn 1000, ch)
             else
               (Returned,
                failWebsocketRequest rq response b ''Too many retries after rate limit exceeded.''
                  deferred
                  (ch\<lparr>pendingRequests := remove_key (req_id rq) (pendingRequests ch)\<rparr>)))
          else
            (let ch1 = ch\<lparr>pendingRequests := remove_key (req_id rq) (pendingRequests ch)\<rparr>
             in if isBillingSuspensionUnauthorizedResponse response b then
                  (Returned, failWebsocketRequest rq response b billingSuspensionErrorMessage deferred ch1)
                else if isSuspensionUnauthorizedResponse response b then
                  (Returned, failWebsocketRequest rq response b suspensionErrorMessage deferred ch1)
                else if \<not> statusAccepted thisStatus then
                  (case b of
                     Null \<Rightarrow> (Threw TypeError, ch1)
                   | Object obj \<Rightarrow>
                       (Returned,
                        failWebsocketRequest rq response b
                          (if truthy (error obj) then the (error obj)
                           else case errors thisStatus of
                                  Some generic \<Rightarrow> generic
                                | None \<Rightarrow> ''Unknown error'')
                          deferred ch1))
                else (Returned, resolve_at deferred b ch1)))"

definition notConnectedError :: string where
  "notConnectedError = ''Can't complete request when not connected. Please reconnect!''"

text \<open>\<open>'Request body exceeds maximum size of ' + bodySizeLimit + ' bytes'\<close>.\<close>

definition overLimitError :: string where
  "overLimitError = ''Request body exceeds maximum size of '' @ ''20000'' @ '' bytes''"

text \<open>The parameters of \<open>wsCall\<close>. \<open>urlParams\<close>, when given, is the path the URL template
  library expands \<open>params.path\<close> to; \<open>bodyParameters\<close> is the text \<open>JSON.stringify\<close> produces
  for \<open>params.parameters\<close>, \<open>None\<close> when there are none.\<close>

record wsparams =
  httpMethod :: "string option"
  requestPath :: string
  urlParams :: "string option"
  bodyParameters :: "utf16 option"

definition toLowerCase :: "string \<Rightarrow> string" where
  "toLowerCase s =
     map (\<lambda>c. case map_of (zip ''ABCDEFGHIJKLMNOPQRSTUVWXYZ'' ''abcdefghijklmnopqrstuvwxyz'') c of
                None \<Rightarrow> c
              | Some l \<Rightarrow> l) s"

text \<open>What \<open>wsCall\<close> leaves behind when it sent a frame: the request record and the deferred
  its response handler closes over.\<close>

record sent =
  request :: request
  deferred :: nat

text \<open>\<open>wsCall\<close>: \<open>Inl\<close> is an exception thrown to the caller; otherwise the returned promise
  (the index of its deferred), the closure of the frame when one was sent, and the
  channel. The checks run in the source's order.\<close>

definition wsCall :: "wsparams \<Rightarrow> channel \<Rightarrow> js_error + (nat \<times> sent option \<times> channel)" where
  "wsCall params ch =
     (let (deferred, ch1) = Q_defer ch
      in case bodyLength (bodyParameters params) of
           None \<Rightarrow> Inl URIError
         | Some len \<Rightarrow>
             if \<not> isConnected ch1 then
               Inr (deferred, None,
                    reject_at deferred notConnectedError ch1)
             else if requestPath params = [] then
               Inr (deferred, None, reject_at deferred ''No request path.'' ch1)
             else if bodySizeLimit < len then
               Inr (deferred, None, reject_at deferred overLimitError ch1)
             else
               (let rq = \<lparr>req_method = toLowerCase (if truthy (httpMethod params)
                                                  then the (httpMethod params) else ''get''),
                          path = (case urlParams params of
                                    None \<Rightarrow> requestPath params | Some expanded \<Rightarrow> expanded),
                          parameters = bodyParameters params, tries = 0, req_id = 0\<rparr>;
                    (key, pr) = add deferred (pendingRequests ch1);
                    rq1 = rq\<lparr>req_id := key\<rparr>;
                    (rq2, ch2) = sendWebsocketRequest rq1 (ch1\<lparr>pendingRequests := pr\<rparr>)
                in Inr (deferred, Some \<lparr>request = rq2, deferred = deferred\<rparr>, ch2)))"

text \<open>One RPC against a list of responses, each with the \<open>status\<close> the transport exposes to
  the callback: a response is handled; when the handler scheduled the resend, the timer fires
  (the request is sent again) and the next response answers that frame. The delays of the
  timers are collected.\<close>

fun answer :: "sent \<Rightarrow> (response \<times> int option) list \<Rightarrow> channel \<Rightarrow> sent \<times> nat list \<times> outcome \<times> channel" where
  "answer c [] ch = (c, [], Returned, ch)"
| "answer c ((response, thisStatus) # rest) ch =
     (case handleResponse (request c) (deferred c) response thisStatus ch of
        (RetryIn ms, ch1) \<Rightarrow>
          (let (rq, ch2) = sendWebsocketRequest (request c) ch1;
               (c', delays, out, ch3) = answer (c\<lparr>request := rq\<rparr>) rest ch2
           in (c', ms # delays, out, ch3))
      | (out, ch1) \<Rightarrow> (c, [], out, ch1))"

section \<open>Concrete channels, requests and responses\<close>

definition connectedChannel :: channel where
  "connectedChannel =
     \<lparr>isConnected = True, pendingRequests = newPendingRequests, deferreds = [], emitted = []\<rparr>"

definition disconnectedChannel :: channel where
  "disconnectedChannel = connectedChannel\<lparr>isConnected := False\<rparr>"

text \<open>A POST to \<open>/v1/groups/\<close> whose parameters stringify to \<open>{}\<close>.\<close>

definition groupsRequest :: wsparams where
  "groupsRequest =
     \<lparr>httpMethod = Some ''POST'', requestPath = ''/v1/groups/'', urlParams = None,
      bodyParameters = Some [123, 125]\<rparr>"

definition emptyObject :: parsed_body where
  "emptyObject = Object \<lparr>error = None, details_message = None, details_reason = None\<rparr>"

text \<open>Responses whose body is the JSON object \<open>{}\<close>: no \<open>error\<close> property.\<close>

definition rateLimited :: response where
  "rateLimited = \<lparr>statusCode = 429, body = Parsed emptyObject, requestId = None\<rparr>"

definition serverProblem :: response where
  "serverProblem = \<lparr>statusCode = 500, body = Parsed emptyObject, requestId = None\<rparr>"

text \<open>The JSON text of a string of 19999 letters \<open>a\<close>: 20001 octets with its quotes.\<close>

definition oversizeBody :: utf16 where
  "oversizeBody = 34 # replicate 19999 97 @ [34]"

definition oversizeRequest :: wsparams where
  "oversizeRequest = groupsRequest\<lparr>bodyParameters := Some oversizeBody\<rparr>"

definition groupsSent :: sent where
  "groupsSent =
     \<lparr>request = \<lparr>req_method = ''post'', path = ''/v1/groups/'', parameters = Some [123, 125],
                  tries = 1, req_id = 1\<rparr>,
      deferred = 0\<rparr>"

definition groupsChannel :: channel where
  "groupsChannel =
     \<lparr>isConnected = True, pendingRequests = \<lparr>contents = [Some 0], counter = 1\<rparr>,
      deferreds = [Pending],
      emitted = [\<lparr>event = ''post'', url = ''/v1/groups/'', data = Some [123, 125]\<rparr>]\<rparr>"

section \<open>Signal routing\<close>

text \<open>The fields of an inbound signal that routing reads. \<open>target\<close> and \<open>fromConnection\<close>
  are \<open>None\<close> when the property is undefined.\<close>

record signal =
  signalType :: string
  sessionId :: string
  target :: "string option"
  fromConnection :: "string option"

text \<open>The fields of a call that routing reads or writes; \<open>connectionId\<close> is \<open>None\<close> until
  a remote connection has been recorded.\<close>

record call =
  call_id :: string
  call_caller :: bool
  call_connectionId :: "string option"

text \<open>\<open>call.fire(name, {signal: signal})\<close>.\<close>

datatype fired = Fire string signal

definition doOffer :: "call \<Rightarrow> signal \<Rightarrow> call \<times> fired list" where
  "doOffer c sg = (c\<lparr>call_connectionId := fromConnection sg\<rparr>, [Fire ''signal-offer'' sg])"

definition doConnected :: "call \<Rightarrow> signal \<Rightarrow> call \<times> fired list" where
  "doConnected c sg = (c, [Fire ''signal-connected'' sg])"

definition doModify :: "call \<Rightarrow> signal \<Rightarrow> call \<times> fired list" where
  "doModify c sg = (c, [Fire ''signal-modify'' sg])"

definition doAnswer :: "call \<Rightarrow> signal \<Rightarrow> call \<times> fired list" where
  "doAnswer c sg = (c\<lparr>call_connectionId := fromConnection sg\<rparr>, [Fire ''signal-answer'' sg])"

definition doIceCandidates :: "call \<Rightarrow> signal \<Rightarrow> call \<times> fired list" where
  "doIceCandidates c sg = (c, [Fire ''signal-icecandidates'' sg])"

text \<open>\<open>doBye\<close> returns before firing when this side is the caller, a connection id is
  recorded (a truthy string) and it is not the one the signal comes from.\<close>

definition doBye :: "call \<Rightarrow> signal \<Rightarrow> call \<times> fired list" where
  "doBye c sg =
     (if call_caller c \<and> truthy (call_connectionId c)
         \<and> call_connectionId c \<noteq> fromConnection sg
      then (c, [])
      else (c, [Fire ''signal-hangup'' sg]))"

definition doUnknown :: "call \<Rightarrow> signal \<Rightarrow> call \<times> fired list" where
  "doUnknown c sg = (c, [])"

text \<open>The routing methods are looked up by a name built at run time.\<close>

definition routingMethods :: "string \<Rightarrow> (call \<Rightarrow> signal \<Rightarrow> call \<times> fired list) option" where
  "routingMethods =
     map_of [(''doOffer'', doOffer), (''doConnected'', doConnected), (''doModify'', doModify),
             (''doAnswer'', doAnswer), (''doIceCandidates'', doIceCandidates),
             (''doBye'', doBye), (''doUnknown'', doUnknown)]"

definition toUpperCase :: "string \<Rightarrow> string" where
  "toUpperCase s =
     map (\<lambda>c. case map_of (zip ''abcdefghijklmnopqrstuvwxyz'' ''ABCDEFGHIJKLMNOPQRSTUVWXYZ'') c of
                None \<Rightarrow> c
              | Some u \<Rightarrow> u) s"

text \<open>\<open>str[0].toUpperCase() + str.slice(1)\<close>; on the empty string \<open>str[0]\<close> is undefined and
  the call throws.\<close>

definition firstUpper :: "string \<Rightarrow> js_error + string" where
  "firstUpper s = (case s of [] \<Rightarrow> Inl TypeError | c # cs \<Rightarrow> Inr (toUpperCase [c] @ cs))"

text \<open>\<open>routeSignal\<close>. The lookups of the owning client (the call by session id, created for
  an offer; for a direct connection the endpoint's connection, unwrapped to its call) are
  not part of the channel: their result is the argument \<open>found\<close>. \<open>Inl\<close> is the error the
  returned promise is rejected with; otherwise the call as routing left it and the events
  fired on it.\<close>

definition routeSignal :: "signal \<Rightarrow> call option \<Rightarrow> js_error + (call option \<times> fired list)" where
  "routeSignal sg found =
     (if target sg = None then Inl (Error ''target undefined'')
      else case found of
             None \<Rightarrow> Inr (None, [])
           | Some c \<Rightarrow>
               if call_id c \<noteq> sessionId sg then Inr (Some c, [])
               else case firstUpper (signalType sg) of
                      Inl e \<Rightarrow> Inl e
                    | Inr upper \<Rightarrow>
                        (case routingMethods (''do'' @ upper) of
                           None \<Rightarrow> Inl TypeError
                         | Some routing \<Rightarrow>
                             (let (c', events) = routing c sg in Inr (Some c', events))))"

definition knownSignals :: "string list" where
  "knownSignals = [''offer'', ''answer'', ''connected'', ''modify'', ''iceCandidates'', ''bye'']"

text \<open>\<open>socketOnSignal\<close>, the socket's handler for a pushed signal: an \<open>ack\<close> is dropped, a
  signal without target or with an unknown type throws, every other signal is routed.\<close>

definition socketOnSignal :: "signal \<Rightarrow> call option \<Rightarrow> js_error + (call option \<times> fired list)" where
  "socketOnSignal sg found =
     (if signalType sg = ''ack'' then Inr (found, [])
      else if \<not> truthy (target sg) \<or> signalType sg = [] \<or> signalType sg \<notin> set knownSignals
      then Inl (Error ''Can't route signal without target or type.'')
      else routeSignal sg found)"

text \<open>Scenario 3 of the specification: the caller has picked connection \<open>A\<close>; a \<open>bye\<close>
  arrives from connection \<open>B\<close>.\<close>

definition establishedCall :: call where
  "establishedCall = \<lparr>call_id = ''session-1'', call_caller = True, call_connectionId = Some ''A''\<rparr>"

definition loserBye :: signal where
  "loserBye =
     \<lparr>signalType = ''bye'', sessionId = ''session-1'', target = Some ''call'',
      fromConnection = Some ''B''\<rparr>"

section \<open>Batched membership operations: joinGroup and registerPresence\<close>

text \<open>An element of a \<open>groupList\<close> or \<open>endpointList\<close>: a string, or some other value,
  kept as the string it turns into when used as a property key.\<close>

datatype jsval = JString string | JOther string

definition propertyKey :: "jsval \<Rightarrow> string" where
  "propertyKey v = (case v of JString s \<Rightarrow> s | JOther s \<Rightarrow> s)"

text \<open>A plain object used as a set of keys is the list of its own keys in the order they
  were created. \<open>obj[k] = true\<close> creates the key \<open>k\<close> if it is not there, except for
  \<open>__proto__\<close>: that assignment runs the setter inherited from \<open>Object.prototype\<close>, which
  ignores a value that is neither an object nor \<open>null\<close>, and no own key appears.\<close>

definition setKey :: "string \<Rightarrow> string list \<Rightarrow> string list" where
  "setKey k ks = (if k = ''__proto__'' then ks else if k \<in> set ks then ks else ks @ [k])"

text \<open>\<open>Object.keys\<close> lists the keys that are array indices first, in ascending numeric
  order, and the other keys after them in the order of their creation. An array index is
  the decimal numeral, without a leading zero, of a number below 4294967295.\<close>

definition isDigit :: "char \<Rightarrow> bool" where
  "isDigit c = (c \<in> set ''0123456789'')"

definition decimalValue :: "string \<Rightarrow> nat" where
  "decimalValue s = foldl (\<lambda>n c. 10 * n + (of_char c - 48)) 0 s"

definition isArrayIndex :: "string \<Rightarrow> bool" where
  "isArrayIndex s =
     (case s of
        [] \<Rightarrow> False
      | c # cs \<Rightarrow>
          list_all isDigit s \<and> (if c = CHR ''0'' then cs = [] else True)
          \<and> decimalValue s < 4294967295)"

definition objectKeys :: "string list \<Rightarrow> string list" where
  "objectKeys ks =
     sort_key decimalValue (filter isArrayIndex ks) @ filter (\<lambda>k. \<not> isArrayIndex k) ks"

text \<open>\<open>JSON.stringify({groups: groupList})\<close> for a list of strings, as UTF-16 text: each
  string in double quotes, with the quote, the backslash and the control characters
  escaped, the strings separated by commas.\<close>

definition hexLower :: "nat \<Rightarrow> nat" where
  "hexLower d = (if d < 10 then 48 + d else 87 + d)"

definition jsonEscape :: "char \<Rightarrow> utf16" where
  "jsonEscape c =
     (let n = (of_char c :: nat)
      in if n = 8 then [92, 98]
         else if n = 9 then [92, 116]
         else if n = 10 then [92, 110]
         else if n = 12 then [92, 102]
         else if n = 13 then [92, 114]
         else if n = 34 then [92, 34]
         else if n = 92 then [92, 92]
         else if n < 32 then [92, 117, 48, 48, hexLower (n div 16), hexLower (n mod 16)]
         else [n])"

definition quoteJSONString :: "string \<Rightarrow> utf16" where
  "quoteJSONString s = 34 # concat (map jsonEscape s) @ [34]"

fun commaSeparated :: "utf16 list \<Rightarrow> utf16" where
  "commaSeparated [] = []"
| "commaSeparated [x] = x"
| "commaSeparated (x # y # ys) = x @ 44 # commaSeparated (y # ys)"

definition stringifyGroups :: "string list \<Rightarrow> utf16" where
  "stringifyGroups groupList =
     [123, 34, 103, 114, 111, 117, 112, 115, 34, 58, 91]
     @ commaSeparated (map quoteJSONString groupList) @ [93, 125]"

text \<open>The argument of the \<open>wsCall\<close> a flush of \<open>joinGroup\<close> makes.\<close>

definition joinRequest :: "string list \<Rightarrow> wsparams" where
  "joinRequest groupList =
     \<lparr>httpMethod = Some ''POST'', requestPath = ''/v1/groups/'', urlParams = None,
      bodyParameters = Some (stringifyGroups groupList)\<rparr>"

text \<open>The closure of \<open>joinGroup\<close>: the accumulated \<open>groups\<close> and the shared \<open>deferred\<close> (an
  index into the store \<open>joinPromises\<close>), the number of flushes scheduled with \<open>setTimeout\<close>
  that have not run yet, the \<open>wsCall\<close>s the flushes made, each with the promise \<open>wsCall\<close>
  returned (a deferred of the channel), the closure of the frame if one was sent, and the
  deferred that the handlers attached with \<open>done\<close> settle, and the exceptions that escaped
  from a flush.\<close>

record joinGroup_state =
  groups :: "string list"
  joinDeferred :: nat
  joinPromises :: "unit promise list"
  joinTimers :: nat
  joinCalls :: "(nat \<times> sent option \<times> nat) list"
  joinThrown :: "js_error list"

definition joinGroup_init :: joinGroup_state where
  "joinGroup_init =
     \<lparr>groups = [], joinDeferred = 0, joinPromises = [Pending], joinTimers = 0, joinCalls = [],
      joinThrown = []\<rparr>"

definition settle :: "nat \<Rightarrow> ('v promise \<Rightarrow> 'v promise) \<Rightarrow> 'v promise list \<Rightarrow> 'v promise list" where
  "settle d f ps = (if d < length ps then ps[d := f (ps ! d)] else ps)"

definition queueGroup :: "jsval \<Rightarrow> string list \<Rightarrow> string list" where
  "queueGroup v ks = (case v of JString g \<Rightarrow> setKey g ks | JOther _ \<Rightarrow> ks)"

text \<open>\<open>actualJoinGroup\<close>; \<open>connected\<close> is \<open>that.isConnected()\<close> at the time of the call. The
  result is the promise returned and the closure afterwards.\<close>

definition actualJoinGroup :: "bool \<Rightarrow> jsval list \<Rightarrow> joinGroup_state \<Rightarrow> nat \<times> joinGroup_state" where
  "actualJoinGroup connected groupList s =
     (let needsToRun = (objectKeys (groups s) = [])
      in if \<not> connected then
           (joinDeferred s,
            s\<lparr>joinPromises := settle (joinDeferred s) (reject notConnectedError) (joinPromises s)\<rparr>)
         else
           (let s1 = s\<lparr>groups := fold queueGroup groupList (groups s)\<rparr>
            in if \<not> needsToRun then (joinDeferred s1, s1)
               else (joinDeferred s1, s1\<lparr>joinTimers := joinTimers s1 + 1\<rparr>)))"

text \<open>\<open>requestJoinsForGroupQueue\<close>, the scheduled flush, on the closure and the channel. An
  exception of \<open>wsCall\<close> escapes from the timer callback after \<open>wsCall\<close> has created its
  deferred.\<close>

definition requestJoinsForGroupQueue :: "joinGroup_state \<times> channel \<Rightarrow> joinGroup_state \<times> channel" where
  "requestJoinsForGroupQueue sc =
     (let s = fst sc;
          ch = snd sc;
          groupList = objectKeys (groups s);
          saveDeferred = joinDeferred s;
          s1 = s\<lparr>groups := [], joinDeferred := length (joinPromises s),
                 joinPromises := joinPromises s @ [Pending]\<rparr>
      in if groupList = [] then
           (s1\<lparr>joinPromises := settle saveDeferred (resolve ()) (joinPromises s1)\<rparr>, ch)
         else
           (case wsCall (joinRequest groupList) ch of
              Inl e \<Rightarrow> (s1\<lparr>joinThrown := joinThrown s1 @ [e]\<rparr>, snd (Q_defer ch))
            | Inr (p, frame, ch1) \<Rightarrow>
                (s1\<lparr>joinCalls := joinCalls s1 @ [(p, frame, saveDeferred)]\<rparr>, ch1)))"

text \<open>The two handlers attached to the promise \<open>p\<close> of such a \<open>wsCall\<close>, run against the
  channel as it is then: nothing while \<open>p\<close> is pending, \<open>saveDeferred.resolve()\<close> once it is
  resolved, \<open>saveDeferred.reject(err)\<close> once it is rejected.\<close>

definition joinCallDone :: "channel \<Rightarrow> nat \<Rightarrow> nat \<Rightarrow> joinGroup_state \<Rightarrow> joinGroup_state" where
  "joinCallDone ch p saveDeferred s =
     (if p < length (deferreds ch) then
        (case deferreds ch ! p of
           Pending \<Rightarrow> s
         | Resolved _ \<Rightarrow> s\<lparr>joinPromises := settle saveDeferred (resolve ()) (joinPromises s)\<rparr>
         | Rejected err \<Rightarrow> s\<lparr>joinPromises := settle saveDeferred (reject err) (joinPromises s)\<rparr>)
      else s)"

text \<open>A run of synchronous calls on a connected channel, and the tick after it, in which
  every scheduled flush runs.\<close>

fun joinGroups :: "jsval list list \<Rightarrow> joinGroup_state \<Rightarrow> nat list \<times> joinGroup_state" where
  "joinGroups [] s = ([], s)"
| "joinGroups (groupList # rest) s =
     (let (p, s1) = actualJoinGroup True groupList s; (ps, s2) = joinGroups rest s1
      in (p # ps, s2))"

definition joinTick :: "joinGroup_state \<times> channel \<Rightarrow> joinGroup_state \<times> channel" where
  "joinTick sc =
     (requestJoinsForGroupQueue ^^ joinTimers (fst sc)) ((fst sc)\<lparr>joinTimers := 0\<rparr>, snd sc)"

definition stringsOf :: "jsval list \<Rightarrow> string set" where
  "stringsOf vs = {g. JString g \<in> set vs}"

text \<open>The \<open>groups\<close> parameter a window of calls leads to when it starts with nothing
  accumulated.\<close>

definition queuedGroups :: "jsval list list \<Rightarrow> string list" where
  "queuedGroups ls = objectKeys (fold queueGroup (concat ls) [])"

text \<open>A group id of 20000 letters \<open>a\<close>.\<close>

definition longGroup :: string where
  "longGroup = replicate 20000 (CHR ''a'')"

text \<open>The closure of \<open>registerPresence\<close> and the channel's \<open>presenceRegistered\<close>. Each
  scheduled flush closes over the \<open>params\<close> of the call that scheduled it, so the timers are
  kept as the list of those \<open>endpointList\<close>s; a \<open>wsCall\<close> to \<open>/v1/presenceobservers\<close> is
  recorded with its \<open>endpointList\<close> parameter, the deferred it settles and the
  \<open>endpointList\<close> its success handler closes over.\<close>

datatype rpc_result = Succeeded | Failed string

record presence_state =
  endpoints :: "string list"
  presenceDeferred :: nat
  presencePromises :: "unit promise list"
  presenceTimers :: "jsval list list"
  presenceRegistered :: "string set"
  presenceCalls :: "(string list \<times> nat \<times> jsval list) list"

definition presence_init :: presence_state where
  "presence_init =
     \<lparr>endpoints = [], presenceDeferred = 0, presencePromises = [Pending], presenceTimers = [],
      presenceRegistered = {}, presenceCalls = []\<rparr>"

definition queueEndpoint :: "string set \<Rightarrow> jsval \<Rightarrow> string list \<Rightarrow> string list" where
  "queueEndpoint registered v ks =
     (case v of JString ep \<Rightarrow> if ep \<notin> registered then setKey ep ks else ks | JOther _ \<Rightarrow> ks)"

definition registerPresence :: "bool \<Rightarrow> jsval list \<Rightarrow> presence_state \<Rightarrow> nat \<times> presence_state" where
  "registerPresence connected endpointList s =
     (let toRun = (objectKeys (endpoints s) = [])
      in if \<not> connected then
           (length (presencePromises s),
            s\<lparr>presencePromises := presencePromises s @ [Rejected notConnectedError]\<rparr>)
         else
           (let s1 = s\<lparr>endpoints :=
                         fold (queueEndpoint (presenceRegistered s)) endpointList (endpoints s)\<rparr>
            in if \<not> toRun then (presenceDeferred s1, s1)
               else (presenceDeferred s1, s1\<lparr>presenceTimers := presenceTimers s1 @ [endpointList]\<rparr>)))"

text \<open>The scheduled flush of \<open>registerPresence\<close>; \<open>paramsEndpointList\<close> is
  \<open>params.endpointList\<close> of the call that scheduled it.\<close>

definition flushPresence :: "jsval list \<Rightarrow> presence_state \<Rightarrow> presence_state" where
  "flushPresence paramsEndpointList s =
     (let endpointList = objectKeys (endpoints s);
          saveDeferred = presenceDeferred s;
          s1 = s\<lparr>endpoints := [], presenceDeferred := length (presencePromises s),
                 presencePromises := presencePromises s @ [Pending]\<rparr>
      in if endpointList = [] then
           s1\<lparr>presencePromises := settle saveDeferred (resolve ()) (presencePromises s1)\<rparr>
         else s1\<lparr>presenceCalls :=
                    presenceCalls s1 @ [(endpointList, saveDeferred, paramsEndpointList)]\<rparr>)"

text \<open>The handlers of that \<open>wsCall\<close>: on success every id of \<open>params.endpointList\<close> is
  marked in \<open>presenceRegistered\<close> (but for \<open>__proto__\<close>, whose assignment creates no
  key).\<close>

definition presenceCallDone ::
    "nat \<Rightarrow> jsval list \<Rightarrow> rpc_result \<Rightarrow> presence_state \<Rightarrow> presence_state" where
  "presenceCallDone saveDeferred paramsEndpointList result s =
     (case result of
        Succeeded \<Rightarrow>
          s\<lparr>presenceRegistered :=
              presenceRegistered s \<union> (propertyKey ` set paramsEndpointList - {''__proto__''}),
            presencePromises := settle saveDeferred (resolve ()) (presencePromises s)\<rparr>
      | Failed err \<Rightarrow>
          s\<lparr>presencePromises := settle saveDeferred (reject err) (presencePromises s)\<rparr>)"

definition presenceTick :: "presence_state \<Rightarrow> presence_state" where
  "presenceTick s = fold flushPresence (presenceTimers s) (s\<lparr>presenceTimers := []\<rparr>)"

text \<open>A flush that finds nothing accumulated makes no call, leaves the channel alone and
  settles only the deferred that is current, so everything recorded for an earlier deferred
  \<open>d\<close> stays.\<close>

definition idleAfter ::
    "nat \<Rightarrow> (nat \<times> sent option \<times> nat) list \<Rightarrow> channel \<Rightarrow> joinGroup_state \<times> channel \<Rightarrow> bool" where
  "idleAfter d calls ch sc \<longleftrightarrow>
     groups (fst sc) = [] \<and> joinCalls (fst sc) = calls \<and> d < joinDeferred (fst sc)
     \<and> joinDeferred (fst sc) < length (joinPromises (fst sc))
     \<and> joinPromises (fst sc) ! d = Pending \<and> snd sc = ch"

section \<open>Properties of the state machine\<close>

lemma transition_unlisted:
  "e \<notin> set (table_row n) \<Longrightarrow> transition n e a s = s"
  by (cases n; cases e) (simp_all add: transition_def)

lemma dispatch_terminated:
  "name s = Terminated \<Longrightarrow> dispatch s e a = (s, [])"
  by (simp add: dispatch_def transition_def)

lemma reachable_modifying_flag:
  "reachable s \<Longrightarrow> name s = Modifying \<Longrightarrow> modifyInProgress s"
proof (induction rule: reachable.induct)
  case (created c)
  then show ?case by (simp add: initialState_def)
next
  case (dispatched s e a)
  then show ?case
    by (cases "name s"; cases e)
       (auto simp: dispatch_def transition_def enter_def afterMedia_def Let_def split: if_splits)
next
  case (mediaFlowing s b)
  then show ?case by simp
next
  case (localMedia s b)
  then show ?case by simp
qed

text \<open>
  C1. In every state, an event that is not listed in that state's row of the transition
  table is dropped: the dispatch returns the machine exactly as it was (name and all
  flags), emits neither an exit nor an entry event, and, \<open>dispatch\<close> being a total function
  without an error outcome, raises nothing.
\<close>

theorem invalid_event_ignored:
  "e \<notin> set (table_row (name s)) \<Longrightarrow> dispatch s e a = (s, [])"
  by (simp add: dispatch_def transition_unlisted)

theorem invalid_event_ignored_witness:
  "Answer \<notin> set (table_row (name (initialState True)))
   \<and> dispatch (initialState True) Answer \<lparr>hasListeners = True, receive = False\<rparr>
       = (initialState True, [])"
proof -
  have h: "Answer \<notin> set (table_row (name (initialState True)))"
    by (simp add: initialState_def)
  show ?thesis using h invalid_event_ignored [OF h] by simp
qed

text \<open>
  C2. Once the machine is in \<open>terminated\<close>, any sequence of further events, whatever their
  arguments, leaves it unchanged and emits no event.
\<close>

theorem terminated_is_absorbing:
  "name s = Terminated \<Longrightarrow> dispatch_all s es = (s, [])"
proof (induction es)
  case Nil
  then show ?case by simp
next
  case (Cons x es)
  obtain e a where x: "x = (e, a)" by (cases x)
  from Cons show ?case by (simp add: x dispatch_terminated)
qed

theorem terminated_is_absorbing_witness:
  "name (fst (dispatch (initialState True) Hangup \<lparr>hasListeners = True, receive = False\<rparr>))
     = Terminated
   \<and> dispatch_all (fst (dispatch (initialState True) Hangup \<lparr>hasListeners = True, receive = False\<rparr>))
       [(Initiate, \<lparr>hasListeners = True, receive = False\<rparr>),
        (Hangup, \<lparr>hasListeners = True, receive = False\<rparr>)]
     = (fst (dispatch (initialState True) Hangup \<lparr>hasListeners = True, receive = False\<rparr>), [])"
proof -
  have h: "name (fst (dispatch (initialState True) Hangup \<lparr>hasListeners = True, receive = False\<rparr>))
             = Terminated"
    by (simp add: dispatch_def transition_def initialState_def enter_def)
  from h terminated_is_absorbing [OF h] show ?thesis by (rule conjI)
qed

text \<open>
  C9. A machine that is in \<open>modifying\<close> (it initiated the modify) and receives \<open>accept\<close>
  moves to \<open>preparing\<close>, emitting \<open>modifying:exit\<close> then \<open>preparing:entry\<close>, with
  \<open>caller\<close> set, \<open>hasLocalMedia\<close> and \<open>hasLocalMediaApproval\<close> cleared, and
  \<open>isModifying()\<close> still true.
\<close>

theorem modifying_accept_prepares:
  assumes "reachable s" and "name s = Modifying"
  shows "snd (dispatch s Accept a) = [Exit Modifying, Entry Preparing]
         \<and> name (fst (dispatch s Accept a)) = Preparing
         \<and> caller (fst (dispatch s Accept a))
         \<and> \<not> hasLocalMedia (fst (dispatch s Accept a))
         \<and> \<not> hasLocalMediaApproval (fst (dispatch s Accept a))
         \<and> isModifying s
         \<and> isModifying (fst (dispatch s Accept a))"
  using reachable_modifying_flag [OF assms] assms(2)
  by (simp add: dispatch_def transition_def enter_def isModifying_def)

theorem modifying_accept_prepares_witness:
  "reachable modifyInitiator \<and> name modifyInitiator = Modifying
   \<and> snd (dispatch modifyInitiator Accept noArgs) = [Exit Modifying, Entry Preparing]
   \<and> name (fst (dispatch modifyInitiator Accept noArgs)) = Preparing
   \<and> caller (fst (dispatch modifyInitiator Accept noArgs))
   \<and> \<not> hasLocalMedia (fst (dispatch modifyInitiator Accept noArgs))
   \<and> \<not> hasLocalMediaApproval (fst (dispatch modifyInitiator Accept noArgs))
   \<and> isModifying modifyInitiator
   \<and> isModifying (fst (dispatch modifyInitiator Accept noArgs))"
proof -
  have r: "reachable modifyInitiator"
    unfolding modifyInitiator_def
    by (intro reachable.dispatched reachable.mediaFlowing reachable.created)
  have n: "name modifyInitiator = Modifying"
    by (simp add: modifyInitiator_def dispatch_def transition_def initialState_def enter_def
          noArgs_def)
  from r n modifying_accept_prepares [OF r n, of noArgs] show ?thesis by simp
qed

section \<open>Properties of PendingRequests\<close>

lemma pending_reachable_bound:
  "pending_reachable p \<Longrightarrow> length (contents p) \<le> counter p"
proof (induction rule: pending_reachable.induct)
  case fresh
  show ?case by (simp add: newPendingRequests_def)
next
  case (added p obj)
  then show ?case by (auto simp: add_def array_assign_def Let_def)
next
  case (removed p key)
  then show ?case by (simp add: remove_key_def array_delete_def)
next
  case (emptied p)
  show ?case by (simp add: reset_def)
qed

lemma add_stores_at_counter:
  "length (contents p) \<le> counter p \<Longrightarrow>
   contents (snd (add obj p)) = contents p @ replicate (counter p - length (contents p)) None @ [Some obj]"
  by (simp add: add_def array_assign_def Let_def)

lemma add_remove_contents:
  "length (contents p) \<le> counter p \<Longrightarrow>
   contents (remove_key (fst (add obj p)) (snd (add obj p))) = contents (snd (add obj p))"
  by (simp add: add_def array_assign_def remove_key_def array_delete_def Let_def)

lemma map_filter_mem: "Some x \<in> set xs \<Longrightarrow> x \<in> set (List.map_filter (\<lambda>x. x) xs)"
  by (induction xs) (auto simp: List.map_filter_def)

section \<open>The byte count of wsCall is the UTF-8 length\<close>

lemma hexDigit_dot: "d < 16 \<Longrightarrow> dot (hexDigit d)"
  by (simp add: hexDigit_def dot_def)

lemma split_percentEncode:
  "split piece (percentEncode b @ rest) = piece # split [] rest"
  by (simp add: percentEncode_def hexDigit_dot)

lemma length_split_piece: "\<forall>q. length (split piece xs) = length (split q xs)"
proof (induction piece xs rule: split.induct)
  case (1 piece)
  show ?case by simp
next
  case (2 piece c cs)
  show ?case
  proof (cases "c = 37 \<or> dot c")
    case True
    show ?thesis
    proof
      fix q
      show "length (split piece (c # cs)) = length (split q (c # cs))"
        unfolding split.simps(2) [of piece c cs] split.simps(2) [of q c cs]
        using True by (auto split: list.split simp del: split.simps)
    qed
  next
    case False
    then have c: "c \<noteq> 37" "\<not> dot c" by simp_all
    from 2 c have "\<forall>q. length (split (piece @ [c]) cs) = length (split q cs)"
      by blast
    then have ih: "\<And>q. length (split (piece @ [c]) cs) = length (split q cs)"
      by blast
    show ?thesis
    proof
      fix q
      have "length (split piece (c # cs)) = length (split (piece @ [c]) cs)"
        using c by simp
      also have "\<dots> = length (split (q @ [c]) cs)" by (rule ih)
      also have "\<dots> = length (split q (c # cs))" using c by simp
      finally show "length (split piece (c # cs)) = length (split q (c # cs))" .
    qed
  qed
qed

lemma length_split_Nil: "length (split piece xs) = length (split [] xs)"
  using length_split_piece by blast

lemma length_split_escapeOctets:
  "length (split piece (escapeOctets bs @ rest)) = length bs + length (split [] rest)"
proof (induction bs arbitrary: piece)
  case Nil
  show ?case by (simp add: escapeOctets_def length_split_Nil [of piece])
next
  case (Cons b bs)
  have "escapeOctets (b # bs) @ rest = percentEncode b @ (escapeOctets bs @ rest)"
    by (simp add: escapeOctets_def)
  then have "length (split piece (escapeOctets (b # bs) @ rest))
               = Suc (length (split [] (escapeOctets bs @ rest)))"
    by (simp only: split_percentEncode list.size length_Cons)
  also have "\<dots> = Suc (length bs + length (split [] rest))"
    by (simp only: Cons.IH)
  finally show ?case by simp
qed

lemma uriUnescaped_dot: "uriUnescaped c \<Longrightarrow> dot c \<and> c \<noteq> 37"
  by (auto simp: uriUnescaped_def dot_def)

lemma length_split_unescaped:
  "uriUnescaped c \<Longrightarrow> length (split piece (c # rest)) = Suc (length (split [] rest))"
  using uriUnescaped_dot [of c] by simp

lemma uriUnescaped_utf8: "uriUnescaped c \<Longrightarrow> utf8 c = [c]"
  by (auto simp: uriUnescaped_def utf8_def)

lemma uriUnescaped_not_surrogate:
  "uriUnescaped c \<Longrightarrow> \<not> isLowSurrogate c \<and> \<not> isHighSurrogate c"
  by (auto simp: uriUnescaped_def isLowSurrogate_def isHighSurrogate_def)

lemma surrogates_disjoint: "isHighSurrogate c \<Longrightarrow> \<not> isLowSurrogate c"
  by (simp add: isLowSurrogate_def isHighSurrogate_def)

lemma length_split_escaped_Nil:
  "length (split [] (escapeOctets bs)) = Suc (length bs)"
  using length_split_escapeOctets [of "[]" bs "[]"] by simp

text \<open>The two steps of \<open>encodeURI\<close> seen through the separator count.\<close>

lemma count_unescaped:
  assumes "uriUnescaped c"
  shows "map_option (\<lambda>u. length (split [] u)) (map_option (\<lambda>r. c # r) e)
           = map_option (\<lambda>n. Suc n) (map_option (\<lambda>u. length (split [] u)) e)"
  using assms by (cases e) (simp_all add: length_split_unescaped del: split.simps)

lemma count_escaped:
  "map_option (\<lambda>u. length (split [] u)) (map_option (\<lambda>r. escapeOctets bs @ r) e)
     = map_option (\<lambda>n. length bs + n) (map_option (\<lambda>u. length (split [] u)) e)"
  by (cases e) (simp_all add: length_split_escapeOctets del: split.simps)

text \<open>On every string, \<open>encodeURI\<close> throws exactly when the string is not well-formed
  UTF-16, and otherwise the number of pieces \<open>split\<close> returns is one more than the number
  of UTF-8 octets.\<close>

lemma split_count_utf8:
  "map_option (\<lambda>u. length (split [] u)) (encodeURI str)
     = map_option (\<lambda>cps. Suc (length (concat (map utf8 cps)))) (decodeUTF16 str)"
proof (induction str rule: decodeUTF16.induct)
  case 1
  show ?case by simp
next
  case (2 c)
  show ?case
  proof (cases "uriUnescaped c")
    case True
    with uriUnescaped_not_surrogate [of c] uriUnescaped_dot [of c] show ?thesis
      by (simp add: uriUnescaped_utf8)
  next
    case False
    then show ?thesis
      by (auto simp: surrogates_disjoint length_split_escaped_Nil simp del: split.simps)
  qed
next
  case (3 c d ds)
  show ?case
  proof (cases "uriUnescaped c")
    case True
    have "map_option (\<lambda>u. length (split [] u)) (encodeURI (c # d # ds))
            = map_option (\<lambda>n. Suc n) (map_option (\<lambda>u. length (split [] u)) (encodeURI (d # ds)))"
      using True by (simp only: encodeURI.simps(2) [of c "d # ds"] if_True count_unescaped)
    also have "\<dots> = map_option (\<lambda>n. Suc n)
                        (map_option (\<lambda>cps. Suc (length (concat (map utf8 cps))))
                           (decodeUTF16 (d # ds)))"
      using 3(2) True uriUnescaped_not_surrogate [of c] by simp
    also have "\<dots> = map_option (\<lambda>cps. Suc (length (concat (map utf8 cps))))
                        (decodeUTF16 (c # d # ds))"
      using True uriUnescaped_not_surrogate [of c]
      by (cases "decodeUTF16 (d # ds)") (simp_all add: uriUnescaped_utf8)
    finally show ?thesis .
  next
    case False
    show ?thesis
    proof (cases "isLowSurrogate c")
      case True
      with False show ?thesis by simp
    next
      case low: False
      show ?thesis
      proof (cases "isHighSurrogate c")
        case True
        show ?thesis
        proof (cases "isLowSurrogate d")
          case dlow: True
          have "map_option (\<lambda>u. length (split [] u)) (encodeURI (c # d # ds))
                  = map_option (\<lambda>n. length (utf8 (pairValue c d)) + n)
                      (map_option (\<lambda>u. length (split [] u)) (encodeURI ds))"
            using False low True dlow
            by (simp add: count_escaped del: split.simps)
          also have "\<dots> = map_option (\<lambda>n. length (utf8 (pairValue c d)) + n)
                        (map_option (\<lambda>cps. Suc (length (concat (map utf8 cps))))
                           (decodeUTF16 ds))"
            using 3(1) low True dlow by simp
          also have "\<dots> = map_option (\<lambda>cps. Suc (length (concat (map utf8 cps))))
                        (decodeUTF16 (c # d # ds))"
            using low True dlow by (cases "decodeUTF16 ds") simp_all
          finally show ?thesis .
        next
          case False
          with \<open>\<not> uriUnescaped c\<close> low True show ?thesis by simp
        qed
      next
        case nhigh: False
        have "map_option (\<lambda>u. length (split [] u)) (encodeURI (c # d # ds))
                = map_option (\<lambda>n. length (utf8 c) + n)
                    (map_option (\<lambda>u. length (split [] u)) (encodeURI (d # ds)))"
          using False low nhigh
          by (simp only: encodeURI.simps(2) [of c "d # ds"] if_False if_True not_False_eq_True
                count_escaped)
        also have "\<dots> = map_option (\<lambda>n. length (utf8 c) + n)
                        (map_option (\<lambda>cps. Suc (length (concat (map utf8 cps))))
                           (decodeUTF16 (d # ds)))"
          using 3(2) low nhigh by simp
        also have "\<dots> = map_option (\<lambda>cps. Suc (length (concat (map utf8 cps))))
                        (decodeUTF16 (c # d # ds))"
          using low nhigh by (cases "decodeUTF16 (d # ds)") simp_all
        finally show ?thesis .
      qed
    qed
  qed
qed

lemma bodyLength_is_utf8Length: "bodyLength (Some str) = utf8Length str"
proof -
  have "map_option (\<lambda>n. n - 1) (map_option (\<lambda>u. length (split [] u)) (encodeURI str))
          = map_option (\<lambda>n. n - 1)
              (map_option (\<lambda>cps. Suc (length (concat (map utf8 cps)))) (decodeUTF16 str))"
    by (simp only: split_count_utf8)
  then show ?thesis
    by (simp add: bodyLength_def utf8Length_def option.map_comp comp_def)
qed

section \<open>Properties of wsCall\<close>

lemma wsCall_groupsRequest:
  "wsCall groupsRequest connectedChannel =
     Inr (0,
          Some \<lparr>request = \<lparr>req_method = ''post'', path = ''/v1/groups/'', parameters = Some [123, 125],
                             tries = 1, req_id = 1\<rparr>,
                deferred = 0\<rparr>,
          \<lparr>isConnected = True, pendingRequests = \<lparr>contents = [Some 0], counter = 1\<rparr>,
           deferreds = [Pending],
           emitted = [\<lparr>event = ''post'', url = ''/v1/groups/'', data = Some [123, 125]\<rparr>]\<rparr>)"
  by (simp add: wsCall_def groupsRequest_def connectedChannel_def Q_defer_def bodyLength_def
        uriUnescaped_def isLowSurrogate_def isHighSurrogate_def utf8_def escapeOctets_def
        percentEncode_def hexDigit_def dot_def bodySizeLimit_def truthy_def toLowerCase_def
        add_def array_assign_def newPendingRequests_def sendWebsocketRequest_def Let_def)

lemmas eval_defs =
  handleResponse_def failWebsocketRequest_def sendWebsocketRequest_def resolve_at_def
  reject_at_def resolve_def reject_def isPending_def truthy_def bodyError_def remove_key_def
  array_delete_def isSuspensionUnauthorizedResponse_def
  isBillingSuspensionUnauthorizedResponse_def statusAccepted_def acceptedStatuses_def
  errors_def buildResponseError_def Let_def

text \<open>What the handler does with a parsed response of status 429: while fewer than three
  frames were sent and the promise is pending it schedules the resend one second later;
  after the third frame it hands the request to \<open>failWebsocketRequest\<close>.\<close>

lemma handleResponse_rate_limited:
  assumes "body response = Parsed b" and "statusCode response = 429" and "isPending ch d"
  shows "handleResponse rq d response thisStatus ch =
           (if tries rq < 3 then (RetryIn 1000, ch)
            else (Returned,
                  failWebsocketRequest rq response b ''Too many retries after rate limit exceeded.'' d
                    (ch\<lparr>pendingRequests := remove_key (req_id rq) (pendingRequests ch)\<rparr>)))"
  using assms by (simp add: handleResponse_def)

text \<open>\<open>failWebsocketRequest\<close> on a pending deferred: a rejection carrying the message, the
  request and the request id if the body has a truthy \<open>error\<close>, and a resolution with the
  body otherwise.\<close>

lemma failWebsocketRequest_settles:
  assumes "isPending ch d"
  shows "deferreds (failWebsocketRequest rq response b err d ch) ! d =
           (if truthy (bodyError b)
            then Rejected (buildResponseError response
                             (err @ '' ('' @ req_method rq @ '' '' @ path rq @ '')''))
            else Resolved b)"
  using assms
  by (simp add: failWebsocketRequest_def isPending_def reject_at_def resolve_at_def reject_def
        resolve_def)

text \<open>A parsed object with a status that is neither 429 nor 401 nor accepted: the promise is
  rejected with \<open>body.error\<close> when that is truthy, and resolved otherwise.\<close>

lemma handleResponse_unexpected_status:
  assumes "body response = Parsed (Object obj)" and "statusCode response \<noteq> 429"
    and "statusCode response \<noteq> 401" and "\<not> statusAccepted thisStatus" and "isPending ch d"
  shows "deferreds (snd (handleResponse rq d response thisStatus ch)) ! d =
           (if truthy (error obj)
            then Rejected (buildResponseError response
                             (the (error obj) @ '' ('' @ req_method rq @ '' '' @ path rq @ '')''))
            else Resolved (Object obj))"
proof -
  let ?ch = "ch\<lparr>pendingRequests := remove_key (req_id rq) (pendingRequests ch)\<rparr>"
  from assms(5) have p: "isPending ?ch d" by (simp add: isPending_def)
  from assms(1-4) have "snd (handleResponse rq d response thisStatus ch)
      = failWebsocketRequest rq response (Object obj)
          (if truthy (error obj) then the (error obj)
           else case errors thisStatus of Some generic \<Rightarrow> generic | None \<Rightarrow> ''Unknown error'')
          d ?ch"
    by (simp add: handleResponse_def isSuspensionUnauthorizedResponse_def
          isBillingSuspensionUnauthorizedResponse_def Let_def)
  then show ?thesis
    by (simp add: failWebsocketRequest_settles [OF p] bodyError_def)
qed

text \<open>
  C4. A POST to \<open>/v1/groups/\<close> on a connected channel, every response of which has status
  429 and the body \<open>{}\<close>: the request is sent three times, one second after each of the
  first two responses, and \<open>tries\<close> counts the three frames. On the third response the
  retries are exhausted and \<open>failWebsocketRequest\<close> is called with the rate-limit message;
  the body has no \<open>error\<close> property, so the deferred is resolved with the body and the
  caller sees no error.
\<close>

theorem rate_limit_exhausted_resolves:
  "wsCall groupsRequest connectedChannel = Inr (0, Some groupsSent, groupsChannel)
   \<and> answer groupsSent [(rateLimited, Some 429), (rateLimited, Some 429), (rateLimited, Some 429)]
         groupsChannel
       = (groupsSent\<lparr>request := (request groupsSent)\<lparr>tries := 3\<rparr>\<rparr>,
          [1000, 1000], Returned,
          groupsChannel
            \<lparr>deferreds := [Resolved emptyObject],
             emitted := [\<lparr>event = ''post'', url = ''/v1/groups/'', data = Some [123, 125]\<rparr>,
                         \<lparr>event = ''post'', url = ''/v1/groups/'', data = Some [123, 125]\<rparr>,
                         \<lparr>event = ''post'', url = ''/v1/groups/'', data = Some [123, 125]\<rparr>]\<rparr>)"
proof -
  have "answer groupsSent [(rateLimited, Some 429), (rateLimited, Some 429), (rateLimited, Some 429)]
         groupsChannel
       = (groupsSent\<lparr>request := (request groupsSent)\<lparr>tries := 3\<rparr>\<rparr>,
          [1000, 1000], Returned,
          groupsChannel
            \<lparr>deferreds := [Resolved emptyObject],
             emitted := [\<lparr>event = ''post'', url = ''/v1/groups/'', data = Some [123, 125]\<rparr>,
                         \<lparr>event = ''post'', url = ''/v1/groups/'', data = Some [123, 125]\<rparr>,
                         \<lparr>event = ''post'', url = ''/v1/groups/'', data = Some [123, 125]\<rparr>]\<rparr>)"
    by (simp add: groupsSent_def groupsChannel_def rateLimited_def emptyObject_def eval_defs)
  then show ?thesis
    by (simp add: wsCall_groupsRequest groupsSent_def groupsChannel_def)
qed

text \<open>
  C5. A response with status 500 (not among the accepted statuses, not 429) whose body is
  \<open>{}\<close>: the handler picks the generic message of the status and hands it to
  \<open>failWebsocketRequest\<close>, which resolves the deferred with the body because the body has
  no \<open>error\<close> property. The promise is not rejected and the generic message is lost.
\<close>

theorem unexpected_status_without_error_resolves:
  "handleResponse (request groupsSent) (deferred groupsSent) serverProblem (Some 500) groupsChannel
     = (Returned, groupsChannel\<lparr>deferreds := [Resolved emptyObject]\<rparr>)"
  by (simp add: groupsSent_def groupsChannel_def serverProblem_def emptyObject_def eval_defs)

lemma decodeUTF16_ascii: "\<forall>c\<in>set s. c < 0x80 \<Longrightarrow> decodeUTF16 s = Some s"
  by (induction s rule: decodeUTF16.induct)
     (auto simp: isLowSurrogate_def isHighSurrogate_def)

lemma utf8_ascii: "\<forall>c\<in>set s. c < 0x80 \<Longrightarrow> concat (map utf8 s) = s"
  by (induction s) (auto simp: utf8_def)

lemma utf8Length_ascii: "\<forall>c\<in>set s. c < 0x80 \<Longrightarrow> utf8Length s = Some (length s)"
  by (simp add: utf8Length_def decodeUTF16_ascii utf8_ascii)

lemma utf8Length_oversizeBody: "utf8Length oversizeBody = Some 20001"
proof -
  have "\<forall>c\<in>set oversizeBody. c < 0x80" by (auto simp: oversizeBody_def)
  then have "utf8Length oversizeBody = Some (length oversizeBody)" by (rule utf8Length_ascii)
  then show ?thesis by (simp add: oversizeBody_def)
qed

lemma wsCall_with_length:
  assumes "bodyLength (bodyParameters params) = Some n"
  shows "wsCall params ch =
     (if \<not> isConnected ch then
        Inr (length (deferreds ch), None, ch\<lparr>deferreds := deferreds ch @ [Rejected notConnectedError]\<rparr>)
      else if requestPath params = [] then
        Inr (length (deferreds ch), None, ch\<lparr>deferreds := deferreds ch @ [Rejected ''No request path.'']\<rparr>)
      else if bodySizeLimit < n then
        Inr (length (deferreds ch), None, ch\<lparr>deferreds := deferreds ch @ [Rejected overLimitError]\<rparr>)
      else
        Inr (length (deferreds ch),
             Some \<lparr>request =
                     \<lparr>req_method = toLowerCase (if truthy (httpMethod params)
                                             then the (httpMethod params) else ''get''),
                      path = (case urlParams params of
                                None \<Rightarrow> requestPath params | Some expanded \<Rightarrow> expanded),
                      parameters = bodyParameters params, tries = 1,
                      req_id = fst (add (length (deferreds ch)) (pendingRequests ch))\<rparr>,
                   deferred = length (deferreds ch)\<rparr>,
             ch\<lparr>deferreds := deferreds ch @ [Pending],
                pendingRequests := snd (add (length (deferreds ch)) (pendingRequests ch)),
                emitted := emitted ch @
                  [\<lparr>event = toLowerCase (if truthy (httpMethod params)
                                           then the (httpMethod params) else ''get''),
                    url = (case urlParams params of
                             None \<Rightarrow> requestPath params | Some expanded \<Rightarrow> expanded),
                    data = bodyParameters params\<rparr>]\<rparr>))"
  using assms
  by (simp add: wsCall_def Q_defer_def reject_at_def reject_def sendWebsocketRequest_def
        Let_def split_beta)

text \<open>
  C8. Let the parameters of a request stringify to well-formed text of \<open>n\<close> UTF-8 octets.
  If \<open>n\<close> exceeds 20000, \<open>wsCall\<close> returns a promise that is already rejected and leaves
  the channel's frames and pending requests as they were; on a connected channel and with a
  request path the rejection is the over-limit error. If \<open>n\<close> is at most 20000 the request
  is never rejected with the over-limit error, and on a connected channel with a request
  path exactly one frame carrying the parameters is emitted and the promise is pending.
\<close>

theorem oversize_request_rejected_locally:
  assumes "bodyParameters params = Some str" and "utf8Length str = Some n"
  shows "(bodySizeLimit < n \<longrightarrow>
            (\<exists>msg. wsCall params ch
                     = Inr (length (deferreds ch), None,
                            ch\<lparr>deferreds := deferreds ch @ [Rejected msg]\<rparr>)
                   \<and> (isConnected ch \<and> requestPath params \<noteq> [] \<longrightarrow> msg = overLimitError)))
         \<and> (n \<le> bodySizeLimit \<longrightarrow>
              (\<forall>d c ch'. wsCall params ch = Inr (d, c, ch') \<longrightarrow>
                           deferreds ch' ! d \<noteq> Rejected overLimitError)
              \<and> (isConnected ch \<and> requestPath params \<noteq> [] \<longrightarrow>
                   (\<exists>c ch'. wsCall params ch = Inr (length (deferreds ch), Some c, ch')
                            \<and> deferreds ch' = deferreds ch @ [Pending]
                            \<and> emitted ch'
                                = emitted ch @
                                    [\<lparr>event = req_method (request c), url = path (request c),
                                      data = Some str\<rparr>])))"
proof -
  from assms have len: "bodyLength (bodyParameters params) = Some n"
    by (simp add: bodyLength_is_utf8Length)
  note w = wsCall_with_length [OF len, of ch]
  have over: "bodySizeLimit < n \<longrightarrow>
            (\<exists>msg. wsCall params ch
                     = Inr (length (deferreds ch), None,
                            ch\<lparr>deferreds := deferreds ch @ [Rejected msg]\<rparr>)
                   \<and> (isConnected ch \<and> requestPath params \<noteq> [] \<longrightarrow> msg = overLimitError))"
    by (auto simp: w)
  have notsize: "n \<le> bodySizeLimit \<longrightarrow>
              (\<forall>d c ch'. wsCall params ch = Inr (d, c, ch') \<longrightarrow>
                           deferreds ch' ! d \<noteq> Rejected overLimitError)"
    by (auto simp: w notConnectedError_def overLimitError_def split: if_splits)
  have sent: "n \<le> bodySizeLimit \<longrightarrow> isConnected ch \<and> requestPath params \<noteq> [] \<longrightarrow>
                   (\<exists>c ch'. wsCall params ch = Inr (length (deferreds ch), Some c, ch')
                            \<and> deferreds ch' = deferreds ch @ [Pending]
                            \<and> emitted ch'
                                = emitted ch @
                                    [\<lparr>event = req_method (request c), url = path (request c),
                                      data = Some str\<rparr>])"
    using assms(1) by (simp add: w)
  from over notsize sent show ?thesis by blast
qed

theorem oversize_request_rejected_locally_witness:
  "bodyParameters oversizeRequest = Some oversizeBody \<and> utf8Length oversizeBody = Some 20001
   \<and> bodySizeLimit < 20001
   \<and> wsCall oversizeRequest connectedChannel
       = Inr (0, None, connectedChannel\<lparr>deferreds := [Rejected overLimitError]\<rparr>)"
proof -
  have p: "bodyParameters oversizeRequest = Some oversizeBody"
    by (simp add: oversizeRequest_def)
  have c: "isConnected connectedChannel \<and> requestPath oversizeRequest \<noteq> []"
    by (simp add: connectedChannel_def oversizeRequest_def groupsRequest_def)
  have l: "bodySizeLimit < 20001" by (simp add: bodySizeLimit_def)
  from oversize_request_rejected_locally [OF p utf8Length_oversizeBody, of connectedChannel] l c
  have "wsCall oversizeRequest connectedChannel
       = Inr (length (deferreds connectedChannel), None,
              connectedChannel\<lparr>deferreds := deferreds connectedChannel @ [Rejected overLimitError]\<rparr>)"
    by blast
  with p l utf8Length_oversizeBody show ?thesis by (simp add: connectedChannel_def)
qed

text \<open>
  C8 as stated fails when the channel is not connected: a request of 20001 octets is
  rejected with the not-connected error, which is checked before the size.
\<close>

theorem oversize_request_while_disconnected:
  "utf8Length oversizeBody = Some 20001
   \<and> wsCall oversizeRequest disconnectedChannel
       = Inr (0, None, disconnectedChannel\<lparr>deferreds := [Rejected notConnectedError]\<rparr>)
   \<and> notConnectedError \<noteq> overLimitError"
proof -
  have "bodyLength (bodyParameters oversizeRequest) = Some 20001"
    by (simp add: oversizeRequest_def bodyLength_is_utf8Length utf8Length_oversizeBody)
  then have "wsCall oversizeRequest disconnectedChannel
       = Inr (0, None, disconnectedChannel\<lparr>deferreds := [Rejected notConnectedError]\<rparr>)"
    by (simp add: wsCall_with_length disconnectedChannel_def connectedChannel_def)
  then show ?thesis
    by (simp add: utf8Length_oversizeBody notConnectedError_def overLimitError_def)
qed

lemma failWebsocketRequest_pending:
  "pendingRequests (failWebsocketRequest rq response b err d ch) = pendingRequests ch"
  by (simp add: failWebsocketRequest_def resolve_at_def reject_at_def)

lemma handleResponse_pending:
  "pendingRequests (snd (handleResponse rq d response thisStatus ch)) = pendingRequests ch
   \<or> pendingRequests (snd (handleResponse rq d response thisStatus ch))
       = remove_key (req_id rq) (pendingRequests ch)"
  by (simp add: handleResponse_def failWebsocketRequest_pending resolve_at_def reject_at_def
        Let_def split: wire_body.split parsed_body.split)

text \<open>
  C10. In every container the operations can produce, \<open>add x\<close> stores \<open>x\<close> at the index
  the counter had and returns that index plus one; \<open>remove\<close> of the returned key leaves the
  contents as they were, so a following \<open>reset\<close> still invokes its callback on \<open>x\<close>.
  Hence for every \<open>wsCall\<close> that sent a frame, the request's recorded id is one more than
  the index of its deferred, and after the response handler has run, whatever the response,
  the deferred is still among the pending requests that \<open>reset\<close> visits.
\<close>

theorem add_then_remove_keeps_request:
  assumes "pending_reachable p" and "pending_reachable (pendingRequests ch)"
  shows "fst (add x p) = counter p + 1
         \<and> contents (snd (add x p)) ! counter p = Some x
         \<and> contents (remove_key (fst (add x p)) (snd (add x p))) = contents (snd (add x p))
         \<and> x \<in> set (fst (reset (remove_key (fst (add x p)) (snd (add x p)))))
         \<and> (\<forall>d c ch1. wsCall params ch = Inr (d, Some c, ch1) \<longrightarrow>
               req_id (request c) = counter (pendingRequests ch) + 1
               \<and> contents (pendingRequests ch1) ! counter (pendingRequests ch) = Some d
               \<and> d \<in> set (fst (reset (pendingRequests
                        (snd (handleResponse (request c) (deferred c) response thisStatus ch1))))))"
proof -
  have round: "fst (add y q) = counter q + 1
         \<and> contents (snd (add y q)) ! counter q = Some y
         \<and> contents (remove_key (fst (add y q)) (snd (add y q))) = contents (snd (add y q))
         \<and> y \<in> set (fst (reset (snd (add y q))))
         \<and> y \<in> set (fst (reset (remove_key (fst (add y q)) (snd (add y q)))))"
    if "pending_reachable q" for y :: 'b and q
  proof -
    from that have b: "length (contents q) \<le> counter q" by (rule pending_reachable_bound)
    have k: "fst (add y q) = counter q + 1" by (simp add: add_def Let_def)
    have c: "contents (snd (add y q))
               = contents q @ replicate (counter q - length (contents q)) None @ [Some y]"
      using b by (rule add_stores_at_counter)
    have a: "contents (snd (add y q)) ! counter q = Some y"
      using b by (simp add: c nth_append)
    have r: "contents (remove_key (fst (add y q)) (snd (add y q))) = contents (snd (add y q))"
      using b by (rule add_remove_contents)
    have "Some y \<in> set (contents (snd (add y q)))" by (simp add: c)
    then have m: "y \<in> set (fst (reset (snd (add y q))))"
      by (simp add: reset_def map_filter_mem)
    then have "y \<in> set (fst (reset (remove_key (fst (add y q)) (snd (add y q)))))"
      by (simp add: reset_def r)
    with k a r m show ?thesis by simp
  qed
  have ws: "req_id (request c) = counter (pendingRequests ch) + 1
               \<and> contents (pendingRequests ch1) ! counter (pendingRequests ch) = Some d
               \<and> d \<in> set (fst (reset (pendingRequests
                        (snd (handleResponse (request c) (deferred c) response thisStatus ch1)))))"
    if w: "wsCall params ch = Inr (d, Some c, ch1)" for d c ch1
  proof -
    from w obtain n where n: "bodyLength (bodyParameters params) = Some n"
      by (cases "bodyLength (bodyParameters params)")
         (simp_all add: wsCall_def Q_defer_def split_beta)
    from w have d: "d = length (deferreds ch)"
      and k: "req_id (request c) = fst (add d (pendingRequests ch))"
      and p: "pendingRequests ch1 = snd (add d (pendingRequests ch))"
      by (auto simp: wsCall_with_length [OF n] split: if_splits)
    note r = round [OF assms(2), of d]
    from handleResponse_pending [of "request c" "deferred c" response thisStatus ch1]
    have "contents (pendingRequests
                     (snd (handleResponse (request c) (deferred c) response thisStatus ch1)))
            = contents (snd (add d (pendingRequests ch)))"
      using r by (auto simp: p k)
    then have "fst (reset (pendingRequests
                     (snd (handleResponse (request c) (deferred c) response thisStatus ch1))))
            = fst (reset (snd (add d (pendingRequests ch))))"
      by (simp add: reset_def)
    with r show ?thesis by (simp add: p k)
  qed
  from round [OF assms(1), of x] ws show ?thesis by blast
qed

theorem add_then_remove_keeps_request_witness:
  "pending_reachable (newPendingRequests :: nat PendingRequests)
   \<and> pending_reachable (pendingRequests connectedChannel)
   \<and> fst (add (7::nat) newPendingRequests) = 1
   \<and> fst (reset (remove_key 1 (snd (add (7::nat) newPendingRequests)))) = [7]
   \<and> wsCall groupsRequest connectedChannel = Inr (0, Some groupsSent, groupsChannel)
   \<and> req_id (request groupsSent) = 1
   \<and> 0 \<in> set (fst (reset (pendingRequests
              (snd (handleResponse (request groupsSent) (deferred groupsSent)
                      \<lparr>statusCode = 200, body = Parsed emptyObject, requestId = None\<rparr>
                      (Some 200) groupsChannel)))))"
proof -
  have a: "pending_reachable (newPendingRequests :: nat PendingRequests)"
    by (rule pending_reachable.fresh)
  have b: "pending_reachable (pendingRequests connectedChannel)"
    by (simp add: connectedChannel_def pending_reachable.fresh)
  have w: "wsCall groupsRequest connectedChannel = Inr (0, Some groupsSent, groupsChannel)"
    by (simp add: wsCall_groupsRequest groupsSent_def groupsChannel_def)
  have e: "fst (reset (remove_key 1 (snd (add (7::nat) newPendingRequests)))) = [7]"
    by (simp add: reset_def remove_key_def add_def array_assign_def array_delete_def
          newPendingRequests_def Let_def List.map_filter_def)
  from add_then_remove_keeps_request [OF a b, of 7 groupsRequest
         "\<lparr>statusCode = 200, body = Parsed emptyObject, requestId = None\<rparr>" "Some 200"] w
  have "fst (add (7::nat) newPendingRequests) = counter (newPendingRequests :: nat PendingRequests) + 1
        \<and> req_id (request groupsSent) = counter (pendingRequests connectedChannel) + 1
        \<and> 0 \<in> set (fst (reset (pendingRequests
              (snd (handleResponse (request groupsSent) (deferred groupsSent)
                      \<lparr>statusCode = 200, body = Parsed emptyObject, requestId = None\<rparr>
                      (Some 200) groupsChannel)))))"
    by blast
  with a b w e show ?thesis by (simp add: newPendingRequests_def connectedChannel_def)
qed

section \<open>Properties of signal routing\<close>

lemma firstUpper_bye: "firstUpper ''bye'' = Inr ''Bye''"
  by (simp add: firstUpper_def toUpperCase_def)

lemma routingMethods_doBye: "routingMethods ''doBye'' = Some doBye"
  by (simp add: routingMethods_def)

text \<open>
  C3. Let this side be the caller of a call whose \<open>connectionId\<close> is set (to a non-empty
  string), and let a \<open>bye\<close> arrive whose \<open>fromConnection\<close> is a different connection or
  missing. Then \<open>doBye\<close> returns the call as it is and fires nothing; so does \<open>routeSignal\<close>
  for every such signal with a target, whether or not the session id matches the call, and
  so does the socket handler.
\<close>

theorem bye_from_other_connection_dropped:
  assumes "call_caller c" and "call_connectionId c = Some winner" and "winner \<noteq> []"
    and "signalType sg = ''bye''" and "fromConnection sg \<noteq> Some winner"
  shows "doBye c sg = (c, [])
         \<and> (target sg \<noteq> None \<longrightarrow> routeSignal sg (Some c) = Inr (Some c, []))
         \<and> (truthy (target sg) \<longrightarrow> socketOnSignal sg (Some c) = Inr (Some c, []))"
proof -
  from assms have b: "doBye c sg = (c, [])"
    by (auto simp: doBye_def truthy_def)
  have r: "routeSignal sg (Some c) = Inr (Some c, [])" if "target sg \<noteq> None"
    using that assms(4) b by (simp add: routeSignal_def firstUpper_bye routingMethods_doBye)
  have t: "target sg \<noteq> None" if "truthy (target sg)"
    using that by (cases "target sg") (simp_all add: truthy_def)
  have s: "socketOnSignal sg (Some c) = Inr (Some c, [])" if "truthy (target sg)"
    using that r [OF t [OF that]] assms(4) by (simp add: socketOnSignal_def knownSignals_def)
  from b r s show ?thesis by blast
qed

theorem bye_from_other_connection_dropped_witness:
  "call_caller establishedCall \<and> call_connectionId establishedCall = Some ''A''
   \<and> signalType loserBye = ''bye'' \<and> fromConnection loserBye \<noteq> Some ''A''
   \<and> doBye establishedCall loserBye = (establishedCall, [])
   \<and> routeSignal loserBye (Some establishedCall) = Inr (Some establishedCall, [])
   \<and> socketOnSignal loserBye (Some establishedCall) = Inr (Some establishedCall, [])"
proof -
  have h: "call_caller establishedCall" "call_connectionId establishedCall = Some ''A''"
    "''A'' \<noteq> []" "signalType loserBye = ''bye''" "fromConnection loserBye \<noteq> Some ''A''"
    by (simp_all add: establishedCall_def loserBye_def)
  have t: "target loserBye \<noteq> None" "truthy (target loserBye)"
    by (simp_all add: loserBye_def truthy_def)
  from bye_from_other_connection_dropped [OF h] t h show ?thesis by simp
qed

section \<open>Properties of the batched operations\<close>

lemma objectKeys_plain: "\<forall>k\<in>set ks. \<not> isArrayIndex k \<Longrightarrow> objectKeys ks = ks"
  by (simp add: objectKeys_def)

lemmas batch_defs =
  registerPresence_def flushPresence_def presenceCallDone_def presenceTick_def presence_init_def
  queueEndpoint_def setKey_def settle_def resolve_def reject_def propertyKey_def Let_def
  objectKeys_def isArrayIndex_def isDigit_def

text \<open>
  C7. Two synchronous calls, \<open>registerPresence({endpointList: ["u1"]})\<close> then
  \<open>registerPresence({endpointList: ["u2"]})\<close>, give one batch \<open>["u1", "u2"]\<close>. When its RPC
  succeeds, the success handler marks the ids of the first call's \<open>params.endpointList\<close>
  only: \<open>u1\<close> is registered, \<open>u2\<close> is not. A later \<open>registerPresence({endpointList:
  ["u2"]})\<close> therefore puts \<open>u2\<close> into the next batch again.
\<close>

theorem presence_of_second_caller_not_recorded:
  "presenceCalls (presenceTick (snd (registerPresence True [JString ''u2'']
       (snd (registerPresence True [JString ''u1''] presence_init)))))
     = [([''u1'', ''u2''], 0, [JString ''u1''])]
   \<and> presenceRegistered (presenceCallDone 0 [JString ''u1''] Succeeded
        (presenceTick (snd (registerPresence True [JString ''u2'']
           (snd (registerPresence True [JString ''u1''] presence_init))))))
     = {''u1''}
   \<and> presenceCalls (presenceTick (snd (registerPresence True [JString ''u2'']
        (presenceCallDone 0 [JString ''u1''] Succeeded
          (presenceTick (snd (registerPresence True [JString ''u2'']
             (snd (registerPresence True [JString ''u1''] presence_init)))))))))
     = [([''u1'', ''u2''], 0, [JString ''u1'']), ([''u2''], 1, [JString ''u2''])]"
  by (simp add: batch_defs)

lemma set_objectKeys: "set (objectKeys ks) = set ks"
  by (auto simp: objectKeys_def)

lemma objectKeys_Nil: "objectKeys ks = [] \<longleftrightarrow> ks = []"
  using set_objectKeys [of ks] by (metis set_empty)

lemma stringsOf_append: "stringsOf (xs @ ys) = stringsOf xs \<union> stringsOf ys"
  by (auto simp: stringsOf_def)

lemma set_queueGroup: "set (queueGroup v ks) = set ks \<union> (stringsOf [v] - {''__proto__''})"
  by (cases v) (auto simp: queueGroup_def setKey_def stringsOf_def)

lemma set_fold_queueGroup:
  "set (fold queueGroup vs ks) = set ks \<union> (stringsOf vs - {''__proto__''})"
proof (induction vs arbitrary: ks)
  case Nil
  show ?case by (simp add: stringsOf_def)
next
  case (Cons v vs)
  have "set (fold queueGroup (v # vs) ks)
          = set (queueGroup v ks) \<union> (stringsOf vs - {''__proto__''})"
    by (simp add: Cons.IH)
  also have "\<dots> = set ks \<union> ((stringsOf [v] \<union> stringsOf vs) - {''__proto__''})"
    by (auto simp: set_queueGroup)
  also have "stringsOf [v] \<union> stringsOf vs = stringsOf (v # vs)"
    using stringsOf_append [of "[v]" vs] by simp
  finally show ?case .
qed

lemma actualJoinGroup_connected:
  "fst (actualJoinGroup True vs s) = joinDeferred s
   \<and> joinDeferred (snd (actualJoinGroup True vs s)) = joinDeferred s
   \<and> joinPromises (snd (actualJoinGroup True vs s)) = joinPromises s
   \<and> joinCalls (snd (actualJoinGroup True vs s)) = joinCalls s
   \<and> groups (snd (actualJoinGroup True vs s)) = fold queueGroup vs (groups s)
   \<and> joinTimers s \<le> joinTimers (snd (actualJoinGroup True vs s))
   \<and> (groups s = [] \<longrightarrow> joinTimers s < joinTimers (snd (actualJoinGroup True vs s)))"
  by (simp add: actualJoinGroup_def Let_def objectKeys_Nil)

lemma joinGroups_connected:
  "fst (joinGroups ls s) = replicate (length ls) (joinDeferred s)
   \<and> joinDeferred (snd (joinGroups ls s)) = joinDeferred s
   \<and> joinPromises (snd (joinGroups ls s)) = joinPromises s
   \<and> joinCalls (snd (joinGroups ls s)) = joinCalls s
   \<and> groups (snd (joinGroups ls s)) = fold queueGroup (concat ls) (groups s)
   \<and> joinTimers s \<le> joinTimers (snd (joinGroups ls s))
   \<and> (groups s = [] \<and> ls \<noteq> [] \<longrightarrow> joinTimers s < joinTimers (snd (joinGroups ls s)))"
proof (induction ls arbitrary: s)
  case Nil
  show ?case by simp
next
  case (Cons vs ls)
  define s1 where "s1 = snd (actualJoinGroup True vs s)"
  note a = actualJoinGroup_connected [of vs s, folded s1_def]
  note ih = Cons.IH [of s1]
  have unfold: "joinGroups (vs # ls) s = (joinDeferred s # fst (joinGroups ls s1), snd (joinGroups ls s1))"
    using a by (simp add: split_beta s1_def)
  have t1: "joinTimers s \<le> joinTimers (snd (joinGroups ls s1))"
    using a ih by linarith
  have t2: "groups s = [] \<longrightarrow> joinTimers s < joinTimers (snd (joinGroups ls s1))"
    using a ih by linarith
  have g: "groups (snd (joinGroups ls s1)) = fold queueGroup (concat (vs # ls)) (groups s)"
    using a ih by simp
  from a ih t1 t2 g show ?case
    unfolding unfold by simp
qed

lemma flush_idle: "idleAfter d calls ch sc \<Longrightarrow> idleAfter d calls ch (requestJoinsForGroupQueue sc)"
  by (simp add: idleAfter_def requestJoinsForGroupQueue_def objectKeys_def settle_def Let_def
        nth_append)

lemma flushes_idle:
  "idleAfter d calls ch sc \<Longrightarrow> idleAfter d calls ch ((requestJoinsForGroupQueue ^^ n) sc)"
  by (induction n) (simp_all add: flush_idle)

lemma toLowerCase_POST: "toLowerCase ''POST'' = ''post''"
  by (simp add: toLowerCase_def)

text \<open>The flush that finds ids accumulated, on a connected channel and with a body within
  the limit: one frame, one pending request, and the handlers waiting for its promise.\<close>

lemma first_flush:
  assumes "groups s \<noteq> []" and "isConnected ch"
    and "utf8Length (stringifyGroups (objectKeys (groups s))) = Some n" and "n \<le> bodySizeLimit"
  shows "requestJoinsForGroupQueue (s, ch) =
           (s\<lparr>groups := [], joinDeferred := length (joinPromises s),
              joinPromises := joinPromises s @ [Pending],
              joinCalls := joinCalls s @
                [(length (deferreds ch),
                  Some \<lparr>request =
                          \<lparr>req_method = ''post'', path = ''/v1/groups/'',
                           parameters = Some (stringifyGroups (objectKeys (groups s))), tries = 1,
                           req_id = fst (add (length (deferreds ch)) (pendingRequests ch))\<rparr>,
                        deferred = length (deferreds ch)\<rparr>,
                  joinDeferred s)]\<rparr>,
            ch\<lparr>deferreds := deferreds ch @ [Pending],
               pendingRequests := snd (add (length (deferreds ch)) (pendingRequests ch)),
               emitted := emitted ch @
                 [\<lparr>event = ''post'', url = ''/v1/groups/'',
                   data = Some (stringifyGroups (objectKeys (groups s)))\<rparr>]\<rparr>)"
proof -
  have len: "bodyLength (bodyParameters (joinRequest (objectKeys (groups s)))) = Some n"
    using assms(3) by (simp add: joinRequest_def bodyLength_is_utf8Length)
  have w: "wsCall (joinRequest (objectKeys (groups s))) ch =
        Inr (length (deferreds ch),
             Some \<lparr>request =
                     \<lparr>req_method = ''post'', path = ''/v1/groups/'',
                      parameters = Some (stringifyGroups (objectKeys (groups s))), tries = 1,
                      req_id = fst (add (length (deferreds ch)) (pendingRequests ch))\<rparr>,
                   deferred = length (deferreds ch)\<rparr>,
             ch\<lparr>deferreds := deferreds ch @ [Pending],
                pendingRequests := snd (add (length (deferreds ch)) (pendingRequests ch)),
                emitted := emitted ch @
                  [\<lparr>event = ''post'', url = ''/v1/groups/'',
                    data = Some (stringifyGroups (objectKeys (groups s)))\<rparr>]\<rparr>)"
    using assms(2,4)
    by (subst wsCall_with_length [OF len])
       (simp add: joinRequest_def truthy_def toLowerCase_POST)
  from assms(1) have "objectKeys (groups s) \<noteq> []" by (simp add: objectKeys_Nil)
  then show ?thesis
    by (simp add: requestJoinsForGroupQueue_def Let_def w)
qed

text \<open>
  C6, as the code has it. Take any N \<ge> 1 synchronous calls of \<open>joinGroup\<close> on a connected
  channel, starting when nothing is accumulated and the shared promise is pending, whose
  lists hold at least one string and no \<open>__proto__\<close>; let the channel be connected when the
  tick's flushes run, and let the body \<open>JSON.stringify\<close> makes of the accumulated groups be
  within the size limit. Then every call returns that same promise; the tick puts exactly
  one frame on the transport, a POST to \<open>/v1/groups/\<close> whose \<open>groups\<close> are the strings of
  all the lists taken together; the promise of that \<open>wsCall\<close> and the shared promise are
  pending after the tick; and whenever the handlers attached to the \<open>wsCall\<close> run, the
  shared promise follows the outcome of that one RPC: resolved if it was resolved, rejected
  with its error if it was rejected.
\<close>

theorem join_batch_one_frame:
  assumes "groups s = []" and "joinDeferred s < length (joinPromises s)"
    and "joinPromises s ! joinDeferred s = Pending"
    and "ls \<noteq> []" and "stringsOf (concat ls) \<noteq> {}" and "''__proto__'' \<notin> stringsOf (concat ls)"
    and "isConnected ch"
    and "utf8Length (stringifyGroups (queuedGroups ls)) = Some n" and "n \<le> bodySizeLimit"
  shows "fst (joinGroups ls s) = replicate (length ls) (joinDeferred s)
         \<and> set (queuedGroups ls) = stringsOf (concat ls)
         \<and> emitted (snd (joinTick (snd (joinGroups ls s), ch)))
             = emitted ch @
                 [\<lparr>event = ''post'', url = ''/v1/groups/'',
                   data = Some (stringifyGroups (queuedGroups ls))\<rparr>]
         \<and> (\<exists>frame. joinCalls (fst (joinTick (snd (joinGroups ls s), ch)))
                       = joinCalls s @ [(length (deferreds ch), Some frame, joinDeferred s)]
                     \<and> deferred frame = length (deferreds ch)
                     \<and> parameters (request frame) = Some (stringifyGroups (queuedGroups ls)))
         \<and> deferreds (snd (joinTick (snd (joinGroups ls s), ch))) = deferreds ch @ [Pending]
         \<and> joinPromises (fst (joinTick (snd (joinGroups ls s), ch))) ! joinDeferred s = Pending
         \<and> (\<forall>ch2. length (deferreds ch) < length (deferreds ch2) \<longrightarrow>
               joinPromises
                 (joinCallDone ch2 (length (deferreds ch)) (joinDeferred s)
                    (fst (joinTick (snd (joinGroups ls s), ch))))
                 ! joinDeferred s
               = (case deferreds ch2 ! length (deferreds ch) of
                    Pending \<Rightarrow> Pending
                  | Resolved _ \<Rightarrow> Resolved ()
                  | Rejected err \<Rightarrow> Rejected err))"
proof -
  define s1 where "s1 = snd (joinGroups ls s)"
  define d where "d = joinDeferred s"
  define p where "p = length (deferreds ch)"
  define body where "body = stringifyGroups (queuedGroups ls)"
  define frame where
    "frame = \<lparr>request = \<lparr>req_method = ''post'', path = ''/v1/groups/'', parameters = Some body,
                          tries = 1, req_id = fst (add p (pendingRequests ch))\<rparr>,
              deferred = p\<rparr>"
  define ch1 where
    "ch1 = ch\<lparr>deferreds := deferreds ch @ [Pending],
              pendingRequests := snd (add p (pendingRequests ch)),
              emitted := emitted ch @ [\<lparr>event = ''post'', url = ''/v1/groups/'', data = Some body\<rparr>]\<rparr>"
  note j = joinGroups_connected [of ls s, folded s1_def]
  from j assms(1) assms(4) obtain k where k: "joinTimers s1 = Suc k"
    by (cases "joinTimers s1") auto
  from j assms(1) have q: "objectKeys (groups s1) = queuedGroups ls"
    by (simp add: queuedGroups_def)
  have ids: "set (queuedGroups ls) = stringsOf (concat ls)"
    using assms(6) by (auto simp: queuedGroups_def set_objectKeys set_fold_queueGroup)
  with assms(5) have "queuedGroups ls \<noteq> []" by auto
  with q objectKeys_Nil [of "groups s1"] have g: "groups (s1\<lparr>joinTimers := 0\<rparr>) \<noteq> []"
    by simp
  have u: "utf8Length (stringifyGroups (objectKeys (groups (s1\<lparr>joinTimers := 0\<rparr>)))) = Some n"
    using assms(8) q by simp
  have first: "requestJoinsForGroupQueue (s1\<lparr>joinTimers := 0\<rparr>, ch) =
      (s1\<lparr>joinTimers := 0, groups := [], joinDeferred := length (joinPromises s),
          joinPromises := joinPromises s @ [Pending],
          joinCalls := joinCalls s @ [(p, Some frame, d)]\<rparr>, ch1)"
    using j q
    by (simp add: first_flush [OF g assms(7) u assms(9)] frame_def ch1_def body_def p_def d_def)
  have "idleAfter d (joinCalls s @ [(p, Some frame, d)]) ch1
          (requestJoinsForGroupQueue (s1\<lparr>joinTimers := 0\<rparr>, ch))"
    using assms(2,3) by (simp add: first idleAfter_def d_def nth_append)
  then have "idleAfter d (joinCalls s @ [(p, Some frame, d)]) ch1
          ((requestJoinsForGroupQueue ^^ k) (requestJoinsForGroupQueue (s1\<lparr>joinTimers := 0\<rparr>, ch)))"
    by (rule flushes_idle)
  then have i: "idleAfter d (joinCalls s @ [(p, Some frame, d)]) ch1 (joinTick (s1, ch))"
    by (simp add: joinTick_def k funpow_swap1)
  from i have c: "joinCalls (fst (joinTick (s1, ch))) = joinCalls s @ [(p, Some frame, d)]"
    and pend: "joinPromises (fst (joinTick (s1, ch))) ! d = Pending"
    and l: "d < length (joinPromises (fst (joinTick (s1, ch))))"
    and chan: "snd (joinTick (s1, ch)) = ch1"
    by (simp_all add: idleAfter_def)
  have e: "emitted (snd (joinTick (s1, ch)))
             = emitted ch @ [\<lparr>event = ''post'', url = ''/v1/groups/'', data = Some body\<rparr>]"
    by (simp add: chan ch1_def)
  have df: "deferreds (snd (joinTick (s1, ch))) = deferreds ch @ [Pending]"
    by (simp add: chan ch1_def)
  have fr: "deferred frame = p \<and> parameters (request frame) = Some body"
    by (simp add: frame_def)
  have out: "joinPromises (joinCallDone ch2 p d (fst (joinTick (s1, ch)))) ! d
               = (case deferreds ch2 ! p of
                    Pending \<Rightarrow> Pending
                  | Resolved _ \<Rightarrow> Resolved ()
                  | Rejected err \<Rightarrow> Rejected err)"
    if "p < length (deferreds ch2)" for ch2
    using that pend l
    by (cases "deferreds ch2 ! p") (simp_all add: joinCallDone_def settle_def resolve_def reject_def)
  from j ids e c fr df pend out show ?thesis
    unfolding s1_def d_def p_def body_def by blast
qed

lemma stringify_three:
  "stringifyGroups [''g1'', ''g2'', ''g3'']
     = [123, 34, 103, 114, 111, 117, 112, 115, 34, 58, 91,
        34, 103, 49, 34, 44, 34, 103, 50, 34, 44, 34, 103, 51, 34, 93, 125]"
  by (simp add: stringifyGroups_def quoteJSONString_def jsonEscape_def)

lemma queued_three:
  "queuedGroups [[JString ''g1'', JString ''g2''], [JString ''g2'', JString ''g3'']]
     = [''g1'', ''g2'', ''g3'']"
  by (simp add: queuedGroups_def queueGroup_def setKey_def objectKeys_def isArrayIndex_def
        isDigit_def)

text \<open>One call whose list holds \<open>g1\<close> and \<open>g2\<close>, then one that repeats \<open>g2\<close> and adds
  \<open>g3\<close>; the body is \<open>{"groups":["g1","g2","g3"]}\<close>, 27 octets.\<close>

theorem join_batch_one_frame_witness:
  "groups joinGroup_init = [] \<and> joinPromises joinGroup_init ! joinDeferred joinGroup_init = Pending
   \<and> isConnected connectedChannel
   \<and> utf8Length (stringifyGroups
        (queuedGroups [[JString ''g1'', JString ''g2''], [JString ''g2'', JString ''g3'']]))
       = Some 27
   \<and> fst (joinGroups [[JString ''g1'', JString ''g2''], [JString ''g2'', JString ''g3'']]
            joinGroup_init) = [0, 0]
   \<and> emitted (snd (joinTick (snd (joinGroups
          [[JString ''g1'', JString ''g2''], [JString ''g2'', JString ''g3'']] joinGroup_init),
          connectedChannel)))
       = [\<lparr>event = ''post'', url = ''/v1/groups/'',
           data = Some (stringifyGroups [''g1'', ''g2'', ''g3''])\<rparr>]
   \<and> joinPromises
        (joinCallDone (connectedChannel\<lparr>deferreds := [Resolved emptyObject]\<rparr>) 0 0
           (fst (joinTick (snd (joinGroups
              [[JString ''g1'', JString ''g2''], [JString ''g2'', JString ''g3'']] joinGroup_init),
              connectedChannel)))) ! 0
       = Resolved ()"
proof -
  let ?ls = "[[JString ''g1'', JString ''g2''], [JString ''g2'', JString ''g3'']]"
  let ?ch2 = "connectedChannel\<lparr>deferreds := [Resolved emptyObject]\<rparr>"
  have h: "groups joinGroup_init = []" "joinDeferred joinGroup_init < length (joinPromises joinGroup_init)"
    "joinPromises joinGroup_init ! joinDeferred joinGroup_init = Pending" "?ls \<noteq> []"
    by (simp_all add: joinGroup_init_def)
  have e: "stringsOf (concat ?ls) \<noteq> {}" "''__proto__'' \<notin> stringsOf (concat ?ls)"
    by (auto simp: stringsOf_def)
  have c: "isConnected connectedChannel" by (simp add: connectedChannel_def)
  have "\<forall>c\<in>set (stringifyGroups [''g1'', ''g2'', ''g3'']). c < 0x80"
    by (simp add: stringify_three)
  then have "utf8Length (stringifyGroups [''g1'', ''g2'', ''g3''])
               = Some (length (stringifyGroups [''g1'', ''g2'', ''g3'']))"
    by (rule utf8Length_ascii)
  then have u: "utf8Length (stringifyGroups (queuedGroups ?ls)) = Some 27"
    by (simp add: queued_three stringify_three)
  have n: "(27::nat) \<le> bodySizeLimit" by (simp add: bodySizeLimit_def)
  have d: "joinDeferred joinGroup_init = 0" "deferreds connectedChannel = []"
    by (simp_all add: joinGroup_init_def connectedChannel_def)
  have l: "length (deferreds connectedChannel) < length (deferreds ?ch2)"
    by (simp add: connectedChannel_def)
  note t = join_batch_one_frame [OF h e c u n]
  from t have r1: "fst (joinGroups ?ls joinGroup_init) = [0, 0]"
    by (simp add: d del: joinGroups.simps)
  from t have r2: "emitted (snd (joinTick (snd (joinGroups ?ls joinGroup_init), connectedChannel)))
       = [\<lparr>event = ''post'', url = ''/v1/groups/'',
           data = Some (stringifyGroups [''g1'', ''g2'', ''g3''])\<rparr>]"
    by (simp add: queued_three connectedChannel_def del: joinGroups.simps)
  from t l have "joinPromises
        (joinCallDone ?ch2 (length (deferreds connectedChannel)) (joinDeferred joinGroup_init)
           (fst (joinTick (snd (joinGroups ?ls joinGroup_init), connectedChannel))))
         ! joinDeferred joinGroup_init
       = (case deferreds ?ch2 ! length (deferreds connectedChannel) of
            Pending \<Rightarrow> Pending
          | Resolved _ \<Rightarrow> Resolved ()
          | Rejected err \<Rightarrow> Rejected err)"
    by blast
  then have r3: "joinPromises
        (joinCallDone ?ch2 0 0
           (fst (joinTick (snd (joinGroups ?ls joinGroup_init), connectedChannel)))) ! 0
       = Resolved ()"
    by (simp add: d emptyObject_def del: joinGroups.simps)
  from h c u r1 r2 r3 show ?thesis by (simp del: joinGroups.simps)
qed

lemma longGroup_Cons: "longGroup = CHR ''a'' # replicate 19999 (CHR ''a'')"
proof -
  have "(20000::nat) = Suc 19999" by simp
  then show ?thesis by (simp only: longGroup_def replicate_Suc)
qed

lemma jsonEscape_letters: "concat (replicate k (jsonEscape (CHR ''a''))) = replicate k 97"
  by (induction k) (simp_all add: jsonEscape_def)

lemma stringify_longGroup:
  "stringifyGroups [longGroup]
     = [123, 34, 103, 114, 111, 117, 112, 115, 34, 58, 91]
       @ 34 # replicate 20000 97 @ [34, 93, 125]"
  by (simp add: stringifyGroups_def quoteJSONString_def longGroup_def jsonEscape_letters)

lemma utf8Length_longGroup: "utf8Length (stringifyGroups [longGroup]) = Some 20015"
proof -
  have "\<forall>c\<in>set (stringifyGroups [longGroup]). c < 0x80"
    by (auto simp: stringify_longGroup)
  then have "utf8Length (stringifyGroups [longGroup]) = Some (length (stringifyGroups [longGroup]))"
    by (rule utf8Length_ascii)
  then show ?thesis by (simp add: stringify_longGroup)
qed

lemma queued_longGroup: "queueGroup (JString longGroup) [] = [longGroup]"
proof -
  have "length longGroup \<noteq> length ''__proto__''" by (simp add: longGroup_def)
  then have "longGroup \<noteq> ''__proto__''" by fastforce
  then show ?thesis by (simp add: queueGroup_def setKey_def)
qed

lemma objectKeys_longGroup: "objectKeys [longGroup] = [longGroup]"
proof -
  have "\<not> isArrayIndex longGroup"
    by (subst longGroup_Cons) (simp add: isArrayIndex_def isDigit_def)
  then show ?thesis by (simp add: objectKeys_def)
qed

lemma wsCall_longGroup:
  "wsCall (joinRequest [longGroup]) connectedChannel
     = Inr (0, None, connectedChannel\<lparr>deferreds := [Rejected overLimitError]\<rparr>)"
proof -
  have len: "bodyLength (bodyParameters (joinRequest [longGroup])) = Some 20015"
    by (simp add: joinRequest_def bodyLength_is_utf8Length utf8Length_longGroup)
  show ?thesis
    by (subst wsCall_with_length [OF len])
       (simp add: joinRequest_def connectedChannel_def bodySizeLimit_def)
qed

text \<open>
  C6 as stated fails in two ways on a connected channel. A call that names no group,
  \<open>joinGroup({groupList: []})\<close>: the flush finds the list empty, makes no \<open>wsCall\<close>, puts no
  frame on the transport and resolves the promise itself. A call that names one group of
  20000 letters: the body has 20015 octets, \<open>wsCall\<close> rejects it for its size without a
  frame, and the promise is rejected with the over-limit error.
\<close>

theorem join_batch_without_frame:
  "fst (joinGroups [[]] joinGroup_init) = [0]
   \<and> emitted (snd (joinTick (snd (joinGroups [[]] joinGroup_init), connectedChannel))) = []
   \<and> joinCalls (fst (joinTick (snd (joinGroups [[]] joinGroup_init), connectedChannel))) = []
   \<and> joinPromises (fst (joinTick (snd (joinGroups [[]] joinGroup_init), connectedChannel))) ! 0
       = Resolved ()
   \<and> fst (joinGroups [[JString longGroup]] joinGroup_init) = [0]
   \<and> joinTick (snd (joinGroups [[JString longGroup]] joinGroup_init), connectedChannel)
       = (joinGroup_init\<lparr>joinDeferred := 1, joinPromises := [Pending, Pending],
                         joinCalls := [(0, None, 0)]\<rparr>,
          connectedChannel\<lparr>deferreds := [Rejected overLimitError]\<rparr>)
   \<and> emitted (connectedChannel\<lparr>deferreds := [Rejected overLimitError]\<rparr>) = []
   \<and> joinPromises
        (joinCallDone (connectedChannel\<lparr>deferreds := [Rejected overLimitError]\<rparr>) 0 0
           (joinGroup_init\<lparr>joinDeferred := 1, joinPromises := [Pending, Pending],
                           joinCalls := [(0, None, 0)]\<rparr>)) ! 0
       = Rejected overLimitError"
proof -
  have a: "fst (joinGroups [[]] joinGroup_init) = [0]
   \<and> emitted (snd (joinTick (snd (joinGroups [[]] joinGroup_init), connectedChannel))) = []
   \<and> joinCalls (fst (joinTick (snd (joinGroups [[]] joinGroup_init), connectedChannel))) = []
   \<and> joinPromises (fst (joinTick (snd (joinGroups [[]] joinGroup_init), connectedChannel))) ! 0
       = Resolved ()"
    by (simp add: joinTick_def actualJoinGroup_def requestJoinsForGroupQueue_def joinGroup_init_def
          connectedChannel_def objectKeys_def settle_def resolve_def Let_def)
  have j: "joinGroups [[JString longGroup]] joinGroup_init
             = ([0], joinGroup_init\<lparr>groups := [longGroup], joinTimers := 1\<rparr>)"
    by (simp add: actualJoinGroup_def queued_longGroup joinGroup_init_def objectKeys_def Let_def)
  have t: "joinTick (joinGroup_init\<lparr>groups := [longGroup], joinTimers := 1\<rparr>, connectedChannel)
       = (joinGroup_init\<lparr>joinDeferred := 1, joinPromises := [Pending, Pending],
                         joinCalls := [(0, None, 0)]\<rparr>,
          connectedChannel\<lparr>deferreds := [Rejected overLimitError]\<rparr>)"
    by (simp add: joinTick_def requestJoinsForGroupQueue_def objectKeys_longGroup wsCall_longGroup
          joinGroup_init_def Let_def)
  have d: "joinPromises
        (joinCallDone (connectedChannel\<lparr>deferreds := [Rejected overLimitError]\<rparr>) 0 0
           (joinGroup_init\<lparr>joinDeferred := 1, joinPromises := [Pending, Pending],
                           joinCalls := [(0, None, 0)]\<rparr>)) ! 0
       = Rejected overLimitError"
    by (simp add: joinCallDone_def settle_def reject_def)
  have e: "emitted (connectedChannel\<lparr>deferreds := [Rejected overLimitError]\<rparr>) = []"
    by (simp add: connectedChannel_def)
  from a j t d e show ?thesis by simp
qed

text \<open>Two behaviours that the statement above leaves aside. The id \<open>__proto__\<close> is never
  accumulated, so a call that names only it ends like a call that names nothing.\<close>

lemma join_proto_not_queued:
  "emitted (snd (joinTick (snd (joinGroups [[JString ''__proto__'']] joinGroup_init),
                           connectedChannel))) = []
   \<and> joinPromises (fst (joinTick (snd (joinGroups [[JString ''__proto__'']] joinGroup_init),
                                    connectedChannel))) ! 0 = Resolved ()"
  by (simp add: joinTick_def actualJoinGroup_def requestJoinsForGroupQueue_def joinGroup_init_def
        connectedChannel_def queueGroup_def setKey_def objectKeys_def settle_def resolve_def Let_def)

text \<open>A call made while the channel is not connected rejects the shared deferred, which
  stays the one handed out until the next flush: the first connected call afterwards gets a
  promise that is already rejected, and no later outcome can settle it again.\<close>

lemma join_after_disconnected_call:
  "fst (actualJoinGroup True [JString ''g1''] (snd (actualJoinGroup False [] joinGroup_init))) = 0
   \<and> joinPromises (snd (actualJoinGroup True [JString ''g1'']
                          (snd (actualJoinGroup False [] joinGroup_init)))) ! 0
       = Rejected notConnectedError
   \<and> resolve () (Rejected notConnectedError) = Rejected notConnectedError"
  by (simp add: actualJoinGroup_def joinGroup_init_def queueGroup_def setKey_def objectKeys_def
        settle_def resolve_def reject_def Let_def)

end
